theory Spec2Isabelle
  imports Complex_Main
begin

section \<open>Python values\<close>

text \<open>
  The services compute with Python floats (energy, money, time stamps). Their arithmetic
  is kept abstract: a float is a value of an arbitrary type \<open>'f\<close>, and the operations
  the code applies to it are the fields of a record. Every theorem below holds for any
  such operations, so in particular for IEEE doubles with their rounding, infinities and
  NaN (\<open>float("nan")\<close> and \<open>float("inf")\<close> are accepted by \<open>float()\<close>).
\<close>

record 'f float_ops =
  fzero :: 'f                              \<comment> \<open>the literal \<open>0.0\<close>\<close>
  flit :: "string \<Rightarrow> 'f"                   \<comment> \<open>any other float literal, by its source text\<close>
  fparse :: "string \<Rightarrow> 'f option"          \<comment> \<open>\<open>float(s)\<close>; \<open>None\<close> is ValueError\<close>
  fadd :: "'f \<Rightarrow> 'f \<Rightarrow> 'f"
  fsub :: "'f \<Rightarrow> 'f \<Rightarrow> 'f"
  fmul :: "'f \<Rightarrow> 'f \<Rightarrow> 'f"
  fge :: "'f \<Rightarrow> 'f \<Rightarrow> bool"              \<comment> \<open>\<open>a >= b\<close>\<close>
  fgt :: "'f \<Rightarrow> 'f \<Rightarrow> bool"              \<comment> \<open>\<open>a > b\<close>\<close>
  ftruthy :: "'f \<Rightarrow> bool"                 \<comment> \<open>\<open>bool(x)\<close>, that is \<open>x != 0\<close>\<close>
  fround :: "nat \<Rightarrow> 'f \<Rightarrow> 'f"             \<comment> \<open>\<open>round(x, n)\<close>\<close>
  fint :: "'f \<Rightarrow> int"                     \<comment> \<open>\<open>int(x)\<close> of a finite float\<close>

text \<open>\<open>float(x or 0.0)\<close> for a float \<open>x\<close>: \<open>x\<close> itself unless it is falsy.\<close>

definition float_or_zero :: "'f float_ops \<Rightarrow> 'f \<Rightarrow> 'f" where
  "float_or_zero ops x = (if ftruthy ops x then x else fzero ops)"

text \<open>\<open>str(list)\<close> of a list of strings that hold no quote and no escape.\<close>

fun join_repr :: "string list \<Rightarrow> string" where
  "join_repr [] = []"
| "join_repr [x] = [CHR 0x27] @ x @ [CHR 0x27]"
| "join_repr (x # y # ys) = [CHR 0x27] @ x @ [CHR 0x27] @ '', '' @ join_repr (y # ys)"

definition fields_repr :: "string list \<Rightarrow> string" where
  "fields_repr fs = ''['' @ join_repr fs @ '']''"

section \<open>Constants of the missing modules\<close>

text \<open>
  Modelled from the spec: \<open>config.CP_STATES\<close> is not among the sources. The spec names
  the four lifecycle states, and the web client and the monitor of the repository compare
  the state with these very strings.
\<close>

definition CP_STATES_DISCONNECTED :: string where "CP_STATES_DISCONNECTED = ''DISCONNECTED''"
definition CP_STATES_ACTIVATED :: string where "CP_STATES_ACTIVATED = ''ACTIVATED''"
definition CP_STATES_SUPPLYING :: string where "CP_STATES_SUPPLYING = ''SUPPLYING''"
definition CP_STATES_OUT_OF_ORDER :: string where "CP_STATES_OUT_OF_ORDER = ''OUT_OF_ORDER''"

text \<open>
  Modelled from the spec: \<open>shared.protocol.MessageTypes\<close> is not among the sources. The
  spec lists the message types of the TCP protocol by these names.
\<close>

definition MessageTypes_REGISTER :: string where "MessageTypes_REGISTER = ''REGISTER''"
definition MessageTypes_ACKNOWLEDGE :: string where "MessageTypes_ACKNOWLEDGE = ''ACKNOWLEDGE''"
definition MessageTypes_DENY :: string where "MessageTypes_DENY = ''DENY''"
definition MessageTypes_HEARTBEAT :: string where "MessageTypes_HEARTBEAT = ''HEARTBEAT''"
definition MessageTypes_REQUEST_CHARGE :: string where
  "MessageTypes_REQUEST_CHARGE = ''REQUEST_CHARGE''"
definition MessageTypes_AUTHORIZE :: string where "MessageTypes_AUTHORIZE = ''AUTHORIZE''"
definition MessageTypes_QUERY_AVAILABLE_CPS :: string where
  "MessageTypes_QUERY_AVAILABLE_CPS = ''QUERY_AVAILABLE_CPS''"
definition MessageTypes_AVAILABLE_CPS :: string where
  "MessageTypes_AVAILABLE_CPS = ''AVAILABLE_CPS''"
definition MessageTypes_SUPPLY_UPDATE :: string where
  "MessageTypes_SUPPLY_UPDATE = ''SUPPLY_UPDATE''"
definition MessageTypes_SUPPLY_END :: string where "MessageTypes_SUPPLY_END = ''SUPPLY_END''"
definition MessageTypes_END_SUPPLY :: string where "MessageTypes_END_SUPPLY = ''END_SUPPLY''"
definition MessageTypes_END_CHARGE :: string where "MessageTypes_END_CHARGE = ''END_CHARGE''"
definition MessageTypes_FAULT :: string where "MessageTypes_FAULT = ''FAULT''"
definition MessageTypes_RECOVERY :: string where "MessageTypes_RECOVERY = ''RECOVERY''"
definition MessageTypes_TICKET :: string where "MessageTypes_TICKET = ''TICKET''"

section \<open>State of the central service\<close>

type_synonym sock = nat
type_synonym key = string

text \<open>The value of \<open>self.charging_points[cp_id]\<close>: a dict with these nine keys.\<close>

record 'f cp_rec =
  state :: string
  location :: "'f \<times> 'f"
  price_per_kwh :: 'f
  current_driver :: "string option"
  kwh_delivered :: 'f
  amount_euro :: 'f
  session_start :: "'f option"
  charging_complete :: bool
  kwh_needed :: 'f

text \<open>The value of \<open>self.drivers[driver_id]\<close>.\<close>

record driver_rec =
  status :: string
  current_cp :: "string option"

text \<open>
  The attributes of \<open>EVCentral\<close> that the handlers read and write. \<open>cp_order\<close> keeps the
  insertion order of the keys of \<open>charging_points\<close>, which a Python dict iterates in. A
  log entry is its source and text (the time stamp is left out).
\<close>

record 'f central =
  charging_points :: "string \<rightharpoonup> 'f cp_rec"
  cp_order :: "string list"
  drivers :: "string \<rightharpoonup> driver_rec"
  logs :: "(string \<times> string) list"
  active_connections :: "string \<rightharpoonup> sock"
  entity_to_socket :: "string \<rightharpoonup> sock"
  socket_to_entity :: "sock \<rightharpoonup> string"
  socket_to_type :: "sock \<rightharpoonup> string"
  monitors :: "string \<rightharpoonup> sock"
  cp_encryption_keys :: "string \<rightharpoonup> key"
  cp_credentials :: "string \<rightharpoonup> (string option \<times> string option)"

section \<open>Effects and outcomes\<close>

text \<open>
  An argument of \<open>Protocol.build_message\<close>, before it is turned into text: a string, a
  float, or the JSON object \<open>{"state": s}\<close>.
\<close>

datatype 'f field = Str string | Flt 'f | StateJson string

text \<open>
  What a handler does to the world outside the process, in program order. \<open>Send\<close> is a call
  of \<open>socket.send\<close> on an encoded message, in clear or encrypted under a key; the
  storage events are the calls made on the storage collaborator. Console output and the
  audit sink are left out.
\<close>

datatype 'f event =
    Send sock "key option" "'f field list"
  | SendFullState sock
  | Close sock
  | SaveSession string string 'f 'f int
  | UpdateDriverStats string 'f
  | SaveDriver string string
  | SaveCp string 'f 'f 'f string

datatype exn = IndexError | ValueError | SendError | StorageError

text \<open>
  How a handler ends: it returns, it raises, or it blocks for ever. \<open>self.lock\<close> is a
  \<open>threading.Lock\<close>, which is not reentrant: a thread that acquires it while holding
  it never continues.
\<close>

datatype outcome = Returned | Raised exn | Blocked

text \<open>
  What the handlers take from outside: the float operations, the clock, which sockets
  accept a \<open>send\<close>, whether the storage collaborator answers, the persisted charging
  points, and the registry service (its table of user name and password hash per
  charging point, its hash function, and whether it can be reached).
\<close>

record 'f env =
  fops :: "'f float_ops"
  clock :: 'f
  send_ok :: "sock \<Rightarrow> bool"
  storage_ok :: bool
  storage_get_cp :: "string \<rightharpoonup> ('f \<times> 'f \<times> 'f)"
  registry_up :: bool
  registry :: "string \<rightharpoonup> (string \<times> string)"
  password_hash :: "string \<Rightarrow> string"
  generate_key :: "string option \<Rightarrow> key"

type_synonym 'f result = "'f central \<times> 'f event list \<times> outcome"

section \<open>Helpers of the central service\<close>

text \<open>\<open>_broadcast_to_ui_protocol\<close>: a failed send is caught and printed.\<close>

definition broadcast_to_ui_protocol :: "'f central \<Rightarrow> 'f field list \<Rightarrow> 'f event list" where
  "broadcast_to_ui_protocol s msg =
     (case monitors s ''WEB_UI'' of
        None \<Rightarrow> []
      | Some ui_sock \<Rightarrow> [Send ui_sock None msg])"

text \<open>
  \<open>add_log\<close> takes \<open>self.lock\<close> itself; \<open>lock_held\<close> says whether the caller holds it
  already.
\<close>

definition add_log :: "bool \<Rightarrow> string \<Rightarrow> string \<Rightarrow> 'f central \<Rightarrow> 'f result" where
  "add_log lock_held source text s =
     (if lock_held then (s, [], Blocked)
      else
        let l = logs s @ [(source, text)];
            s' = s\<lparr>logs := (if 200 < length l then drop (length l - 200) l else l)\<rparr>
        in (s', broadcast_to_ui_protocol s' [Str ''LOG'', Str source, Str text], Returned))"

text \<open>A \<open>socket.send\<close> outside any \<open>try\<close>: the exception leaves the handler.\<close>

definition send_raising :: "'f env \<Rightarrow> sock \<Rightarrow> 'f field list \<Rightarrow> 'f central \<Rightarrow> 'f result" where
  "send_raising env sck msg s =
     (s, [Send sck None msg], if send_ok env sck then Returned else Raised SendError)"

text \<open>\<open>_send_full_state_to_ui\<close>: reads the history from storage, then sends.\<close>

definition send_full_state_to_ui :: "'f env \<Rightarrow> sock \<Rightarrow> 'f event list \<times> outcome" where
  "send_full_state_to_ui env ui_socket =
     (if \<not> storage_ok env then ([], Raised StorageError)
      else ([SendFullState ui_socket],
            if send_ok env ui_socket then Returned else Raised SendError))"

definition set_cp :: "string \<Rightarrow> 'f cp_rec \<Rightarrow> 'f central \<Rightarrow> 'f central" where
  "set_cp cp_id cp s = s\<lparr>charging_points := (charging_points s)(cp_id \<mapsto> cp)\<rparr>"

text \<open>\<open>_cleanup_socket\<close>\<close>

definition cleanup_socket :: "sock \<Rightarrow> string \<Rightarrow> 'f central \<Rightarrow> 'f central \<times> 'f event list" where
  "cleanup_socket client_socket client_id s =
     (let ent = socket_to_entity s client_socket;
          typ = socket_to_type s client_socket;
          s1 = s\<lparr>socket_to_entity := (socket_to_entity s)(client_socket := None),
                 socket_to_type := (socket_to_type s)(client_socket := None)\<rparr>;
          s2 = (case ent of
                  None \<Rightarrow> s1
                | Some e \<Rightarrow>
                    if e \<noteq> [] \<and> entity_to_socket s1 e = Some client_socket
                    then s1\<lparr>entity_to_socket := (entity_to_socket s1)(e := None)\<rparr>
                    else s1);
          s3 = (case ent of
                  None \<Rightarrow> s2
                | Some e \<Rightarrow>
                    if typ = Some ''MONITOR'' \<and> monitors s2 e = Some client_socket
                    then s2\<lparr>monitors := (monitors s2)(e := None)\<rparr>
                    else s2);
          pop_conn = (\<lambda>t. t\<lparr>active_connections := (active_connections t)(client_id := None)\<rparr>)
      in case ent of
           None \<Rightarrow> (pop_conn s3, [Close client_socket])
         | Some e \<Rightarrow>
             if typ = Some ''CP'' \<and> e \<noteq> [] then
               (case charging_points s3 e of
                  None \<Rightarrow> (pop_conn s3, [Close client_socket])
                | Some cp \<Rightarrow>
                    if state cp = CP_STATES_SUPPLYING then (s3, [Close client_socket])
                    else
                      let s4 = set_cp e (cp\<lparr>state := CP_STATES_DISCONNECTED,
                                             current_driver := None,
                                             charging_complete := False\<rparr>) s3
                      in (pop_conn s4,
                          Close client_socket #
                          broadcast_to_ui_protocol s4
                            [Str ''CP_STATE'', Str e, StateJson CP_STATES_DISCONNECTED]))
             else (pop_conn s3, [Close client_socket]))"

text \<open>
  \<open>_send_to_cp\<close>: the message goes out encrypted when a non-empty key is on file. When
  the \<open>try\<close> block (encrypt, then send) fails, the socket is cleaned up.
\<close>

definition encrypt_key_for_cp :: "'f central \<Rightarrow> string \<Rightarrow> key option" where
  "encrypt_key_for_cp s cp_id =
     (case cp_encryption_keys s cp_id of
        None \<Rightarrow> None
      | Some k \<Rightarrow> if k = [] then None else Some k)"

definition send_to_cp ::
  "'f env \<Rightarrow> string \<Rightarrow> 'f field list \<Rightarrow> 'f central \<Rightarrow> 'f central \<times> 'f event list \<times> bool" where
  "send_to_cp env cp_id plain_msg s =
     (case entity_to_socket s cp_id of
        None \<Rightarrow> (s, [], False)
      | Some sck \<Rightarrow>
          if send_ok env sck
          then (s, [Send sck (encrypt_key_for_cp s cp_id) plain_msg], True)
          else
            (case cleanup_socket sck (''cp:'' @ cp_id) s of
               (s', ev) \<Rightarrow>
                 (s', Send sck (encrypt_key_for_cp s cp_id) plain_msg # ev, False)))"

section \<open>Handlers of the central service\<close>

text \<open>The parameter \<open>fields\<close> of the handlers is written \<open>flds\<close>.\<close>

text \<open>\<open>_handle_heartbeat\<close>\<close>

definition handle_heartbeat :: "string list \<Rightarrow> 'f central \<Rightarrow> 'f result" where
  "handle_heartbeat flds s =
     (if length flds < 3 then (s, [], Returned)
      else
        let cp_id = flds ! 1; reported = flds ! 2
        in case charging_points s cp_id of
             None \<Rightarrow> (s, [], Returned)
           | Some cp \<Rightarrow>
               if state cp \<noteq> CP_STATES_SUPPLYING
               then (set_cp cp_id (cp\<lparr>state := reported\<rparr>) s, [], Returned)
               else (s, [], Returned))"

text \<open>\<open>_handle_charge_request\<close>\<close>

definition handle_charge_request ::
  "'f env \<Rightarrow> string list \<Rightarrow> sock \<Rightarrow> string \<Rightarrow> 'f central \<Rightarrow> 'f result" where
  "handle_charge_request env flds client_socket client_id s =
     (if length flds < 4
      then add_log False ''EV_Central''
             (''Invalid REQUEST_CHARGE from '' @ client_id @ '': '' @ fields_repr flds) s
      else
        let driver_id = flds ! 1; cp_id = flds ! 2
        in case fparse (fops env) (flds ! 3) of
             None \<Rightarrow> (s, [], Raised ValueError)
           | Some needed \<Rightarrow>
               (case charging_points s cp_id of
                  None \<Rightarrow>
                    send_raising env client_socket
                      [Str MessageTypes_DENY, Str driver_id, Str cp_id, Str ''CP_NOT_FOUND''] s
                | Some cp \<Rightarrow>
                    if state cp \<noteq> CP_STATES_ACTIVATED \<or> current_driver cp \<noteq> None
                    then
                      let reason = (if state cp \<noteq> CP_STATES_ACTIVATED
                                    then ''CP_STATE_'' @ state cp
                                    else ''CP_ALREADY_IN_USE'')
                      in send_raising env client_socket
                           [Str MessageTypes_DENY, Str driver_id, Str cp_id, Str reason] s
                    else
                      let cp' = cp\<lparr>state := CP_STATES_SUPPLYING,
                                    current_driver := Some driver_id,
                                    session_start := Some (clock env),
                                    kwh_delivered := fzero (fops env),
                                    amount_euro := fzero (fops env),
                                    kwh_needed := needed,
                                    charging_complete := False\<rparr>;
                          s1 = set_cp cp_id cp' s;
                          s2 = (case drivers s1 driver_id of
                                  None \<Rightarrow> s1
                                | Some d \<Rightarrow>
                                    s1\<lparr>drivers := (drivers s1)(driver_id \<mapsto>
                                          d\<lparr>status := ''CHARGING'', current_cp := Some cp_id\<rparr>)\<rparr>);
                          price = price_per_kwh cp'
                      in case add_log False ''EV_Central''
                                (''Charge authorized Driver '' @ driver_id @ '' -> '' @ cp_id) s2 of
                           (s3, ev3, _) \<Rightarrow>
                             (case send_to_cp env cp_id
                                     [Str MessageTypes_AUTHORIZE, Str driver_id, Str cp_id,
                                      Flt needed] s3 of
                                (s4, ev4, _) \<Rightarrow>
                                  (s4,
                                   ev3 @
                                   [Send client_socket None
                                      [Str MessageTypes_AUTHORIZE, Str driver_id, Str cp_id,
                                       Flt needed, Flt price]] @
                                   ev4 @
                                   broadcast_to_ui_protocol s4
                                     [Str ''DRIVER_START'', Str cp_id, Str driver_id],
                                   Returned))))"

text \<open>\<open>_handle_supply_update\<close>\<close>

definition handle_supply_update :: "'f env \<Rightarrow> string list \<Rightarrow> 'f central \<Rightarrow> 'f result" where
  "handle_supply_update env flds s =
     (if length flds < 4
      then add_log False ''EV_Central'' (''Invalid SUPPLY_UPDATE: '' @ fields_repr flds) s
      else
        let cp_id = flds ! 1; ops = fops env
        in case fparse ops (flds ! 2) of
             None \<Rightarrow> (s, [], Raised ValueError)
           | Some kwh_inc \<Rightarrow>
               (case fparse ops (flds ! 3) of
                  None \<Rightarrow> (s, [], Raised ValueError)
                | Some amount_field \<Rightarrow>
                    (case charging_points s cp_id of
                       None \<Rightarrow> (s, [], Returned)
                     | Some cp \<Rightarrow>
                         let delivered = fadd ops (float_or_zero ops (kwh_delivered cp)) kwh_inc;
                             computed_total = fmul ops delivered (price_per_kwh cp);
                             prev_amt = float_or_zero ops (amount_euro cp);
                             amount =
                               (if fge ops amount_field prev_amt \<and>
                                   fge ops amount_field (fmul ops computed_total (flit ops ''0.7''))
                                then amount_field
                                else fadd ops prev_amt (fmul ops kwh_inc (price_per_kwh cp)));
                             amount_r = fround ops 2 amount;
                             driver_id = current_driver cp;
                             needed = float_or_zero ops (kwh_needed cp);
                             fire = (fgt ops needed (fzero ops) \<and> fge ops delivered needed \<and>
                                     \<not> charging_complete cp);
                             s1 = set_cp cp_id
                                    (cp\<lparr>kwh_delivered := delivered,
                                        amount_euro := amount_r,
                                        charging_complete := (charging_complete cp \<or> fire)\<rparr>) s;
                             ev1 = (if fire
                                    then broadcast_to_ui_protocol s1
                                           [Str ''CHARGING_COMPLETE'', Str cp_id,
                                            Str (case driver_id of None \<Rightarrow> [] | Some d \<Rightarrow> d)]
                                    else []);
                             kwh_total = fround ops 6 delivered;
                             eur_total = amount_r;
                             ev2 = (case driver_id of
                                      None \<Rightarrow> []
                                    | Some d \<Rightarrow>
                                        if d = [] then []
                                        else (case entity_to_socket s1 d of
                                                None \<Rightarrow> []
                                              | Some dsock \<Rightarrow>
                                                  [Send dsock None
                                                     [Str MessageTypes_SUPPLY_UPDATE, Str cp_id,
                                                      Flt kwh_total, Flt eur_total]]))
                         in (s1,
                             ev1 @ ev2 @
                             broadcast_to_ui_protocol s1
                               [Str MessageTypes_SUPPLY_UPDATE, Str cp_id,
                                Flt kwh_total, Flt eur_total],
                             Returned))))"

text \<open>
  \<open>_finalize_charge\<close>. The two storage calls share one \<open>try\<close>: when the first raises,
  the second is not made.
\<close>

definition finalize_charge ::
  "'f env \<Rightarrow> string \<Rightarrow> string \<Rightarrow> 'f \<Rightarrow> 'f \<Rightarrow> 'f central \<Rightarrow> 'f result" where
  "finalize_charge env cp_id driver_id total_kwh total_amount s =
     (let ops = fops env;
          duration =
            (case charging_points s cp_id of
               None \<Rightarrow> 0
             | Some cp \<Rightarrow>
                 (case session_start cp of
                    None \<Rightarrow> 0
                  | Some t \<Rightarrow> if ftruthy ops t then fint ops (fsub ops (clock env) t) else 0));
          s1 = (case charging_points s cp_id of
                  None \<Rightarrow> s
                | Some cp \<Rightarrow>
                    set_cp cp_id
                      (cp\<lparr>state := CP_STATES_ACTIVATED,
                          current_driver := None,
                          session_start := None,
                          charging_complete := True,
                          kwh_needed := fzero ops,
                          kwh_delivered := fzero ops,
                          amount_euro := fzero ops\<rparr>) s);
          s2 = (case drivers s1 driver_id of
                  None \<Rightarrow> s1
                | Some d \<Rightarrow>
                    s1\<lparr>drivers := (drivers s1)(driver_id \<mapsto>
                          d\<lparr>status := ''IDLE'', current_cp := None\<rparr>)\<rparr>);
          ev_store =
            (if storage_ok env
             then [SaveSession cp_id driver_id total_kwh total_amount duration,
                   UpdateDriverStats driver_id total_amount]
             else [SaveSession cp_id driver_id total_kwh total_amount duration]);
          ev_ticket =
            (case entity_to_socket s2 driver_id of
               None \<Rightarrow> []
             | Some dsock \<Rightarrow>
                 [Send dsock None
                    [Str MessageTypes_TICKET, Str cp_id, Flt total_kwh, Flt total_amount]])
      in (s2,
          ev_store @ ev_ticket @
          broadcast_to_ui_protocol s2 [Str ''DRIVER_STOP'', Str cp_id, Str driver_id] @
          broadcast_to_ui_protocol s2
            [Str MessageTypes_SUPPLY_END, Str cp_id, Str driver_id,
             Flt total_kwh, Flt total_amount],
          Returned))"

text \<open>\<open>_handle_supply_end\<close>\<close>

definition handle_supply_end :: "'f env \<Rightarrow> string list \<Rightarrow> 'f central \<Rightarrow> 'f result" where
  "handle_supply_end env flds s =
     (if length flds < 5 then (s, [], Returned)
      else
        let cp_id = flds ! 1; driver_id = flds ! 2
        in case fparse (fops env) (flds ! 3) of
             None \<Rightarrow> (s, [], Raised ValueError)
           | Some total_kwh \<Rightarrow>
               (case fparse (fops env) (flds ! 4) of
                  None \<Rightarrow> (s, [], Raised ValueError)
                | Some total_amount \<Rightarrow>
                    finalize_charge env cp_id driver_id total_kwh total_amount s))"

text \<open>\<open>force_stop_charge\<close>\<close>

definition force_stop_charge :: "'f env \<Rightarrow> string \<Rightarrow> 'f central \<Rightarrow> 'f result" where
  "force_stop_charge env cp_id s =
     (case charging_points s cp_id of
        None \<Rightarrow> (s, [], Returned)
      | Some cp \<Rightarrow>
          if state cp \<noteq> CP_STATES_SUPPLYING then (s, [], Returned)
          else
            let driver_id = (case current_driver cp of None \<Rightarrow> [] | Some d \<Rightarrow> d);
                total_kwh = float_or_zero (fops env) (kwh_delivered cp);
                total_amount = float_or_zero (fops env) (amount_euro cp)
            in case add_log False ''EV_Central'' (''Force stop requested for '' @ cp_id) s of
                 (s1, ev1, _) \<Rightarrow>
                   (case send_to_cp env cp_id [Str MessageTypes_END_SUPPLY, Str cp_id] s1 of
                      (s2, ev2, _) \<Rightarrow>
                        (case finalize_charge env cp_id driver_id total_kwh total_amount s2 of
                           (s3, ev3, oc) \<Rightarrow> (s3, ev1 @ ev2 @ ev3, oc))))"

text \<open>\<open>_handle_end_charge\<close>\<close>

definition handle_end_charge :: "'f env \<Rightarrow> string list \<Rightarrow> 'f central \<Rightarrow> 'f result" where
  "handle_end_charge env flds s =
     (if length flds < 3 then (s, [], Returned)
      else
        let driver_id = flds ! 1; cp_id = flds ! 2
        in case charging_points s cp_id of
             None \<Rightarrow> (s, [], Returned)
           | Some cp \<Rightarrow>
               if current_driver cp \<noteq> Some driver_id then (s, [], Returned)
               else
                 let total_kwh = float_or_zero (fops env) (kwh_delivered cp);
                     total_amount = float_or_zero (fops env) (amount_euro cp)
                 in case send_to_cp env cp_id [Str MessageTypes_END_SUPPLY, Str cp_id] s of
                      (s1, ev1, _) \<Rightarrow>
                        (case finalize_charge env cp_id driver_id total_kwh total_amount s1 of
                           (s2, ev2, oc) \<Rightarrow> (s2, ev1 @ ev2, oc)))"

text \<open>\<open>_handle_fault\<close> and \<open>_handle_recovery\<close>\<close>

definition handle_fault :: "string list \<Rightarrow> 'f central \<Rightarrow> 'f result" where
  "handle_fault flds s =
     (if length flds < 2 then (s, [], Returned)
      else
        let cp_id = flds ! 1;
            s1 = (case charging_points s cp_id of
                    None \<Rightarrow> s
                  | Some cp \<Rightarrow> set_cp cp_id (cp\<lparr>state := CP_STATES_OUT_OF_ORDER\<rparr>) s)
        in case add_log False ''EV_Central'' (''FAULT '' @ cp_id) s1 of
             (s2, ev2, _) \<Rightarrow>
               (s2,
                ev2 @ broadcast_to_ui_protocol s2
                        [Str MessageTypes_FAULT, Str cp_id, StateJson CP_STATES_OUT_OF_ORDER],
                Returned))"

definition handle_recovery :: "string list \<Rightarrow> 'f central \<Rightarrow> 'f result" where
  "handle_recovery flds s =
     (if length flds < 2 then (s, [], Returned)
      else
        let cp_id = flds ! 1;
            s1 = (case charging_points s cp_id of
                    None \<Rightarrow> s
                  | Some cp \<Rightarrow>
                      if state cp \<noteq> CP_STATES_SUPPLYING
                      then set_cp cp_id (cp\<lparr>state := CP_STATES_ACTIVATED\<rparr>) s
                      else s)
        in case add_log False ''EV_Central'' (''RECOVERY '' @ cp_id) s1 of
             (s2, ev2, _) \<Rightarrow>
               (s2,
                ev2 @ broadcast_to_ui_protocol s2
                        [Str MessageTypes_RECOVERY, Str cp_id, StateJson CP_STATES_ACTIVATED],
                Returned))"

text \<open>
  \<open>_handle_weather_alert\<close>. Both branches that write the state call \<open>add_log\<close> inside
  \<open>with self.lock\<close>; the broadcast after the block is reached only when the block is left.
\<close>

definition handle_weather_alert :: "string list \<Rightarrow> 'f central \<Rightarrow> 'f result" where
  "handle_weather_alert flds s =
     (if length flds < 3 then (s, [], Returned)
      else
        let cp_id = flds ! 1; alert = flds ! 2
        in case charging_points s cp_id of
             None \<Rightarrow> (s, [], Returned)
           | Some cp \<Rightarrow>
               (case (if alert = ''ALERT_COLD''
                      then add_log True ''EV_Weather'' (cp_id @ '' OUT_OF_ORDER (cold)'')
                             (set_cp cp_id (cp\<lparr>state := CP_STATES_OUT_OF_ORDER\<rparr>) s)
                      else if alert = ''WEATHER_OK''
                      then (if state cp \<noteq> CP_STATES_SUPPLYING
                            then add_log True ''EV_Weather'' (cp_id @ '' ACTIVATED (weather ok)'')
                                   (set_cp cp_id (cp\<lparr>state := CP_STATES_ACTIVATED\<rparr>) s)
                            else (s, [], Returned))
                      else (s, [], Returned)) of
                  (s1, ev1, Returned) \<Rightarrow>
                    (s1,
                     ev1 @ broadcast_to_ui_protocol s1
                             [Str ''CP_STATE'', Str cp_id,
                              Str (case charging_points s1 cp_id of
                                     None \<Rightarrow> state cp
                                   | Some c \<Rightarrow> state c)],
                     Returned)
                | r \<Rightarrow> r))"

text \<open>
  \<open>api_weather_alert\<close>, the REST route of the same alert, on the state of the process
  that serves it. \<open>cp_id\<close> and \<open>alert\<close> are JSON values that may be absent; \<open>temp\<close>
  is the text of the temperature. \<open>_broadcast_to_ui\<close> sends the state as JSON.
\<close>

definition api_weather_alert ::
  "string option \<Rightarrow> string option \<Rightarrow> string \<Rightarrow> 'f central \<Rightarrow> 'f result" where
  "api_weather_alert cp_id_json alert_json temp s =
     (case (cp_id_json, alert_json) of
        (Some cp_id, Some alert) \<Rightarrow>
          if cp_id = [] \<or> alert = [] then (s, [], Returned)
          else
            (case add_log False ''EV_Weather''
                    (cp_id @ '': '' @ alert @ '' ('' @ temp @ [CHR 0xC2, CHR 0xB0] @ ''C)'') s of
               (s0, ev0, _) \<Rightarrow>
                 (case charging_points s0 cp_id of
                    None \<Rightarrow> (s0, ev0, Returned)
                  | Some cp \<Rightarrow>
                      if alert = ''ALERT_COLD'' then
                        (let s1 = set_cp cp_id (cp\<lparr>state := CP_STATES_OUT_OF_ORDER\<rparr>) s0;
                             ev1 = broadcast_to_ui_protocol s1
                                     [Str ''CP_STATE'', Str cp_id,
                                      StateJson CP_STATES_OUT_OF_ORDER]
                         in case add_log True ''EV_Central''
                                   (cp_id @ '' taken out of service (cold weather)'') s1 of
                              (s2, ev2, oc) \<Rightarrow> (s2, ev0 @ ev1 @ ev2, oc))
                      else if alert = ''WEATHER_OK'' \<and> state cp \<noteq> CP_STATES_SUPPLYING then
                        (let s1 = set_cp cp_id (cp\<lparr>state := CP_STATES_ACTIVATED\<rparr>) s0;
                             ev1 = broadcast_to_ui_protocol s1
                                     [Str ''CP_STATE'', Str cp_id,
                                      StateJson CP_STATES_ACTIVATED]
                         in case add_log True ''EV_Central''
                                   (cp_id @ '' restored to service (weather ok)'') s1 of
                              (s2, ev2, oc) \<Rightarrow> (s2, ev0 @ ev1 @ ev2, oc))
                      else (s0, ev0, Returned)))
      | _ \<Rightarrow> (s, [], Returned))"

text \<open>\<open>_handle_query_available_cps\<close>\<close>

definition handle_query_available_cps ::
  "string list \<Rightarrow> sock \<Rightarrow> 'f central \<Rightarrow> 'f result" where
  "handle_query_available_cps flds client_socket s =
     (if length flds < 2 then (s, [], Returned)
      else
        let available =
              filter (\<lambda>cp_id. case charging_points s cp_id of
                                 None \<Rightarrow> False
                               | Some cp \<Rightarrow>
                                   state cp = CP_STATES_ACTIVATED \<and> current_driver cp = None)
                (cp_order s);
            response_fields =
              Str MessageTypes_AVAILABLE_CPS #
              concat (map (\<lambda>cp_id. case charging_points s cp_id of
                                      None \<Rightarrow> []
                                    | Some cp \<Rightarrow>
                                        [Str cp_id, Flt (fst (location cp)),
                                         Flt (snd (location cp)), Flt (price_per_kwh cp)])
                        available)
        in (s, [Send client_socket None response_fields], Returned))"

text \<open>
  The route \<open>/verify\<close> of the registry service: the status code of its answer.
\<close>

definition verify_cp :: "'f env \<Rightarrow> string \<Rightarrow> string option \<Rightarrow> string option \<Rightarrow> nat" where
  "verify_cp env cp_id username password =
     (case (username, password) of
        (Some u, Some p) \<Rightarrow>
          if cp_id = [] \<or> u = [] \<or> p = [] then 400
          else (case registry env cp_id of
                  None \<Rightarrow> 404
                | Some (reg_username, reg_hash) \<Rightarrow>
                    if reg_username \<noteq> u then 401
                    else if reg_hash \<noteq> password_hash env p then 401
                    else 200)
      | _ \<Rightarrow> 400)"

text \<open>\<open>_verify_cp_credentials\<close>: an unreachable registry raises, which is caught.\<close>

definition verify_cp_credentials ::
  "'f env \<Rightarrow> string \<Rightarrow> string option \<Rightarrow> string option \<Rightarrow> 'f central \<Rightarrow> 'f central \<times> bool" where
  "verify_cp_credentials env cp_id username password s =
     (if \<not> registry_up env then (s, False)
      else if verify_cp env cp_id username password \<noteq> 200 then (s, False)
      else (s\<lparr>cp_credentials := (cp_credentials s)(cp_id \<mapsto> (username, password))\<rparr>, True))"

text \<open>\<open>_handle_register\<close>\<close>

definition handle_register ::
  "'f env \<Rightarrow> string list \<Rightarrow> sock \<Rightarrow> 'f central \<Rightarrow> 'f result" where
  "handle_register env flds client_socket s =
     (if length flds < 3 then (s, [], Returned)
      else
        let entity_type = flds ! 1; entity_id = flds ! 2; ops = fops env
        in
        if entity_type = ''MONITOR'' \<and> entity_id = ''WEB_UI'' then
          (let s1 = s\<lparr>monitors := (monitors s)(''WEB_UI'' \<mapsto> client_socket),
                       socket_to_entity := (socket_to_entity s)(client_socket \<mapsto> ''WEB_UI''),
                       socket_to_type := (socket_to_type s)(client_socket \<mapsto> ''MONITOR'')\<rparr>;
               ack = Send client_socket None
                       [Str MessageTypes_ACKNOWLEDGE, Str ''WEB_UI'', Str ''OK'']
           in if \<not> send_ok env client_socket then (s1, [ack], Raised SendError)
              else (case send_full_state_to_ui env client_socket of
                      (ev, oc) \<Rightarrow> (s1, ack # ev, oc)))
        else if entity_type = ''DRIVER'' then
          (let s1 = s\<lparr>drivers := (drivers s)(entity_id \<mapsto>
                                     \<lparr>status = ''IDLE'', current_cp = None\<rparr>),
                       entity_to_socket := (entity_to_socket s)(entity_id \<mapsto> client_socket),
                       socket_to_entity := (socket_to_entity s)(client_socket \<mapsto> entity_id),
                       socket_to_type := (socket_to_type s)(client_socket \<mapsto> ''DRIVER'')\<rparr>
           in if \<not> storage_ok env
              then (s1, [SaveDriver entity_id ''IDLE''], Raised StorageError)
              else (case add_log False ''EV_Central''
                           (''Driver '' @ entity_id @ '' registered'') s1 of
                      (s2, ev2, _) \<Rightarrow>
                        (case send_raising env client_socket
                                [Str MessageTypes_ACKNOWLEDGE, Str entity_id, Str ''OK''] s2 of
                           (s3, ev3, oc) \<Rightarrow>
                             (s3, SaveDriver entity_id ''IDLE'' # ev2 @ ev3, oc))))
        else if entity_type = ''CP'' then
          (let username = (if 6 < length flds then Some (flds ! 6) else None);
               password = (if 7 < length flds then Some (flds ! 7) else None)
           in case verify_cp_credentials env entity_id username password s of
                (s0, False) \<Rightarrow>
                  send_raising env client_socket
                    [Str MessageTypes_DENY, Str entity_id, Str ''AUTH_FAILED''] s0
              | (s0, True) \<Rightarrow>
                  (let symmetric_key = generate_key env password;
                       s1 = s0\<lparr>cp_encryption_keys :=
                                  (cp_encryption_keys s0)(entity_id \<mapsto> symmetric_key),
                                entity_to_socket :=
                                  (entity_to_socket s0)(entity_id \<mapsto> client_socket),
                                socket_to_entity :=
                                  (socket_to_entity s0)(client_socket \<mapsto> entity_id),
                                socket_to_type :=
                                  (socket_to_type s0)(client_socket \<mapsto> ''CP'')\<rparr>
                   in if \<not> storage_ok env then (s1, [], Raised StorageError)
                      else
                        (let (lat, lon, price) =
                               (case storage_get_cp env entity_id of
                                  Some stored \<Rightarrow> stored
                                | None \<Rightarrow>
                                    (let lat_lon =
                                           (case (if 3 < length flds then fparse ops (flds ! 3)
                                                  else Some (flit ops ''40.5''),
                                                  if 4 < length flds then fparse ops (flds ! 4)
                                                  else Some (flit ops ''-3.1'')) of
                                              (Some la, Some lo) \<Rightarrow> (la, lo)
                                            | _ \<Rightarrow> (flit ops ''40.5'', flit ops ''-3.1''));
                                         pr = (if 5 < length flds
                                               then (case fparse ops (flds ! 5) of
                                                       Some v \<Rightarrow> v
                                                     | None \<Rightarrow> flit ops ''0.30'')
                                               else flit ops ''0.30'')
                                     in (fst lat_lon, snd lat_lon, pr)));
                             cp' =
                               (case charging_points s1 entity_id of
                                  None \<Rightarrow>
                                    \<lparr>state = CP_STATES_ACTIVATED,
                                     location = (lat, lon),
                                     price_per_kwh = price,
                                     current_driver = None,
                                     kwh_delivered = fzero ops,
                                     amount_euro = fzero ops,
                                     session_start = None,
                                     charging_complete = False,
                                     kwh_needed = fzero ops\<rparr>
                                | Some cp \<Rightarrow>
                                    cp\<lparr>state :=
                                         (case current_driver cp of
                                            None \<Rightarrow> CP_STATES_ACTIVATED
                                          | Some d \<Rightarrow>
                                              if d = [] then CP_STATES_ACTIVATED
                                              else CP_STATES_SUPPLYING),
                                       location := (lat, lon),
                                       price_per_kwh := price,
                                       kwh_delivered := float_or_zero ops (kwh_delivered cp),
                                       amount_euro := float_or_zero ops (amount_euro cp),
                                       kwh_needed := float_or_zero ops (kwh_needed cp)\<rparr>);
                             s2 = (set_cp entity_id cp' s1)
                                    \<lparr>cp_order :=
                                       (if charging_points s1 entity_id = None
                                        then cp_order s1 @ [entity_id] else cp_order s1)\<rparr>;
                             save = SaveCp entity_id lat lon price (state cp');
                             ack = Send client_socket None
                                     [Str MessageTypes_ACKNOWLEDGE, Str entity_id, Str ''OK'',
                                      Str symmetric_key, Flt lat, Flt lon]
                         in if \<not> send_ok env client_socket
                            then (s2, [save, ack], Raised SendError)
                            else
                              (case add_log False ''EV_Central''
                                      (''CP '' @ entity_id @ '' connected'') s2 of
                                 (s3, ev3, _) \<Rightarrow>
                                   (s3,
                                    [save, ack] @ ev3 @
                                    (case monitors s3 ''WEB_UI'' of
                                       None \<Rightarrow> []
                                     | Some ui_sock \<Rightarrow>
                                         fst (send_full_state_to_ui env ui_sock)),
                                    Returned)))))
        else (s, [], Returned))"

text \<open>\<open>_process_fields\<close>, the dispatch on the type tag.\<close>

definition process_fields ::
  "'f env \<Rightarrow> string list \<Rightarrow> sock \<Rightarrow> string \<Rightarrow> 'f central \<Rightarrow> 'f result" where
  "process_fields env flds client_socket client_id s =
     (case flds of
        [] \<Rightarrow> (s, [], Raised IndexError)
      | t # _ \<Rightarrow>
          if t = MessageTypes_REGISTER then handle_register env flds client_socket s
          else if t = MessageTypes_HEARTBEAT then handle_heartbeat flds s
          else if t = MessageTypes_REQUEST_CHARGE
            then handle_charge_request env flds client_socket client_id s
          else if t = MessageTypes_QUERY_AVAILABLE_CPS
            then handle_query_available_cps flds client_socket s
          else if t = MessageTypes_SUPPLY_UPDATE then handle_supply_update env flds s
          else if t = MessageTypes_SUPPLY_END then handle_supply_end env flds s
          else if t = MessageTypes_END_CHARGE then handle_end_charge env flds s
          else if t = ''FINISH_CHARGE'' then
            (if length flds < 3 then (s, [], Raised IndexError)
             else handle_end_charge env [''END_CHARGE'', flds ! 1, flds ! 2] s)
          else if t = MessageTypes_FAULT then handle_fault flds s
          else if t = MessageTypes_RECOVERY then handle_recovery flds s
          else if t = ''LOG'' then
            add_log False (if 1 < length flds then flds ! 1 else ''UNKNOWN'')
              (if 2 < length flds then flds ! 2 else []) s
          else if t = ''WEATHER_ALERT'' then handle_weather_alert flds s
          else (s, [], Returned))"

text \<open>
  One turn of the inner loop of \<open>_handle_client\<close>, from the parsed fields on: an
  exception of the handler is caught and the loop goes on; a handler that never returns
  stops the loop for good.
\<close>

datatype loop_status = Continue | Stuck

definition handle_client_step ::
  "'f env \<Rightarrow> string list \<Rightarrow> sock \<Rightarrow> string \<Rightarrow> 'f central
     \<Rightarrow> 'f central \<times> 'f event list \<times> loop_status" where
  "handle_client_step env flds client_socket client_id s =
     (case process_fields env flds client_socket client_id s of
        (s', ev, Blocked) \<Rightarrow> (s', ev, Stuck)
      | (s', ev, _) \<Rightarrow> (s', ev, Continue))"

section \<open>The charging-point engine\<close>

text \<open>
  The attributes of \<open>EVCPEngine\<close> that the message handlers touch. The first four carry
  the prefix \<open>eng_\<close>, their names being taken by the records of the central service.
\<close>

record 'f session =
  start :: 'f
  session_kwh_needed :: 'f
  session_kwh_delivered :: 'f

record 'f engine =
  eng_state :: string
  eng_current_driver :: "string option"
  current_session :: "'f session option"
  eng_charging_complete :: bool
  central_socket :: "sock option"
  connected :: bool

text \<open>
  \<open>_handle_authorize\<close> of both copies of the engine (they agree). The two reads of
  \<open>fields\<close> come first and have no length check.
\<close>

definition handle_authorize ::
  "'f float_ops \<Rightarrow> 'f \<Rightarrow> string list \<Rightarrow> 'f engine \<Rightarrow> 'f engine \<times> outcome" where
  "handle_authorize ops now flds e =
     (if length flds < 2 then (e, Raised IndexError)
      else
        let driver_id = flds ! 1
        in if length flds < 4 then (e, Raised IndexError)
           else (case fparse ops (flds ! 3) of
                   None \<Rightarrow> (e, Raised ValueError)
                 | Some needed \<Rightarrow>
                     if eng_state e \<noteq> CP_STATES_ACTIVATED then (e, Returned)
                     else
                       (e\<lparr>eng_state := CP_STATES_SUPPLYING,
                          eng_current_driver := Some driver_id,
                          current_session :=
                            Some \<lparr>start = now,
                                  session_kwh_needed = needed,
                                  session_kwh_delivered = fzero ops\<rparr>,
                          eng_charging_complete := False\<rparr>,
                        Returned)))"

text \<open>\<open>_close_central_socket\<close>\<close>

definition close_central_socket :: "'f engine \<Rightarrow> 'f engine" where
  "close_central_socket e = e\<lparr>central_socket := None, connected := False\<rparr>"

text \<open>
  The branch of \<open>_listen_central_loop\<close> for an AUTHORIZE message: an exception of the
  handler is caught by the loop, which closes the socket.
\<close>

definition listen_authorize ::
  "'f float_ops \<Rightarrow> 'f \<Rightarrow> string list \<Rightarrow> 'f engine \<Rightarrow> 'f engine" where
  "listen_authorize ops now flds e =
     (case handle_authorize ops now flds e of
        (e', Raised _) \<Rightarrow> close_central_socket e'
      | (e', _) \<Rightarrow> e')"

section \<open>Exact arithmetic and sample data\<close>

text \<open>
  One instance of the float operations, on the rationals: decimal texts are read exactly,
  sums and products are exact, \<open>round\<close> rounds half to even. On the sample runs
  below it yields the values that IEEE doubles yield.
\<close>

fun parse_digits :: "string \<Rightarrow> nat \<Rightarrow> nat option" where
  "parse_digits [] acc = Some acc"
| "parse_digits (c # cs) acc =
     (let n = (of_char c :: nat)
      in if 48 \<le> n \<and> n \<le> 57 then parse_digits cs (10 * acc + (n - 48)) else None)"

definition parse_unsigned :: "string \<Rightarrow> rat option" where
  "parse_unsigned str =
     (let ip = takeWhile (\<lambda>c. c \<noteq> CHR ''.'') str;
          fp = (case dropWhile (\<lambda>c. c \<noteq> CHR ''.'') str of [] \<Rightarrow> [] | _ # r \<Rightarrow> r)
      in if ip = [] \<and> fp = [] then None
         else (case (parse_digits ip 0, parse_digits fp 0) of
                 (Some a, Some b) \<Rightarrow> Some (of_nat a + of_nat b / 10 ^ length fp)
               | _ \<Rightarrow> None))"

definition parse_decimal :: "string \<Rightarrow> rat option" where
  "parse_decimal str =
     (case str of
        [] \<Rightarrow> None
      | c # cs \<Rightarrow>
          if c = CHR ''-'' then map_option uminus (parse_unsigned cs)
          else parse_unsigned str)"

definition round_half_even :: "rat \<Rightarrow> int" where
  "round_half_even y =
     (let f = \<lfloor>y\<rfloor>; d = y - of_int f
      in if d < 1 / 2 then f else if 1 / 2 < d then f + 1
         else if even f then f else f + 1)"

definition exact_ops :: "rat float_ops" where
  "exact_ops =
     \<lparr>fzero = 0,
      flit = (\<lambda>str. case parse_decimal str of None \<Rightarrow> 0 | Some r \<Rightarrow> r),
      fparse = parse_decimal,
      fadd = (\<lambda>a b. a + b),
      fsub = (\<lambda>a b. a - b),
      fmul = (\<lambda>a b. a * b),
      fge = (\<lambda>a b. b \<le> a),
      fgt = (\<lambda>a b. b < a),
      ftruthy = (\<lambda>a. a \<noteq> 0),
      fround = (\<lambda>n a. of_int (round_half_even (a * 10 ^ n)) / 10 ^ n),
      fint = (\<lambda>a. if 0 \<le> a then \<lfloor>a\<rfloor> else \<lceil>a\<rceil>)\<rparr>"

definition sample_env :: "rat env" where
  "sample_env =
     \<lparr>fops = exact_ops,
      clock = 1000,
      send_ok = (\<lambda>_. True),
      storage_ok = True,
      storage_get_cp = Map.empty,
      registry_up = True,
      registry = [''CP-1'' \<mapsto> (''user1'', ''h:pw1'')],
      password_hash = (\<lambda>p. ''h:'' @ p),
      generate_key = (\<lambda>p. case p of None \<Rightarrow> [] | Some x \<Rightarrow> ''k:'' @ x)\<rparr>"

text \<open>A charging point just registered, at 0.5 per kWh, and one in the middle of a session.\<close>

definition idle_cp :: "rat cp_rec" where
  "idle_cp =
     \<lparr>state = ''ACTIVATED'', location = (40, -3), price_per_kwh = 1 / 2,
      current_driver = None, kwh_delivered = 0, amount_euro = 0,
      session_start = None, charging_complete = False, kwh_needed = 0\<rparr>"

definition busy_cp :: "rat cp_rec" where
  "busy_cp =
     \<lparr>state = ''SUPPLYING'', location = (40, -3), price_per_kwh = 1 / 2,
      current_driver = Some ''D-1'', kwh_delivered = 5, amount_euro = 5 / 2,
      session_start = Some 900, charging_complete = False, kwh_needed = 10\<rparr>"

text \<open>
  A central with the charging point \<open>CP-1\<close> on socket 1 and the driver \<open>D-1\<close> on
  socket 2, no monitor connected.
\<close>

definition sample_central :: "rat cp_rec \<Rightarrow> driver_rec \<Rightarrow> rat central" where
  "sample_central cp d =
     \<lparr>charging_points = [''CP-1'' \<mapsto> cp],
      cp_order = [''CP-1''],
      drivers = [''D-1'' \<mapsto> d],
      logs = [],
      active_connections = [''10.0.0.1:40001'' \<mapsto> 1, ''10.0.0.2:40002'' \<mapsto> 2],
      entity_to_socket = [''CP-1'' \<mapsto> 1, ''D-1'' \<mapsto> 2],
      socket_to_entity = [1 \<mapsto> ''CP-1'', 2 \<mapsto> ''D-1''],
      socket_to_type = [1 \<mapsto> ''CP'', 2 \<mapsto> ''DRIVER''],
      monitors = Map.empty,
      cp_encryption_keys = [''CP-1'' \<mapsto> ''k:pw1''],
      cp_credentials = [''CP-1'' \<mapsto> (Some ''user1'', Some ''pw1'')]\<rparr>"

definition idle_driver :: driver_rec where
  "idle_driver = \<lparr>status = ''IDLE'', current_cp = None\<rparr>"

definition charging_driver :: driver_rec where
  "charging_driver = \<lparr>status = ''CHARGING'', current_cp = Some ''CP-1''\<rparr>"

text \<open>An engine connected on socket 7, with no session, in the given state.\<close>

definition sample_engine :: "string \<Rightarrow> rat engine" where
  "sample_engine st =
     \<lparr>eng_state = st, eng_current_driver = None, current_session = None,
      eng_charging_complete = False, central_socket = Some 7, connected = True\<rparr>"

section \<open>Notions the claims speak of\<close>

text \<open>
  What a run of effects charges a driver: the amounts handed to \<open>update_driver_stats\<close>,
  with the driver, and the TICKET messages sent, with the socket and the arguments.
\<close>

fun billed :: "'f event list \<Rightarrow> (string \<times> 'f) list" where
  "billed [] = []"
| "billed (UpdateDriverStats d a # ev) = (d, a) # billed ev"
| "billed (_ # ev) = billed ev"

fun tickets :: "'f event list \<Rightarrow> (sock \<times> 'f field list) list" where
  "tickets [] = []"
| "tickets (Send sck k (Str t # args) # ev) =
     (if t = MessageTypes_TICKET then (sck, args) # tickets ev else tickets ev)"
| "tickets (_ # ev) = tickets ev"

text \<open>
  The laws of the order and the sum of floats that a growing meter rests on: \<open>0.0 >= 0.0\<close>;
  \<open>>=\<close> is transitive; the sum of two floats that are \<open>>= 0.0\<close> is \<open>>=\<close> the first;
  a falsy float is a zero, so \<open>0.0\<close> is \<open>>=\<close> it. IEEE doubles obey all four (a NaN is
  \<open>>=\<close> nothing, so it never meets a premise).
\<close>

definition ordered_floats :: "'f float_ops \<Rightarrow> bool" where
  "ordered_floats ops \<longleftrightarrow>
     fge ops (fzero ops) (fzero ops) \<and>
     (\<forall>a b c. fge ops a b \<and> fge ops b c \<longrightarrow> fge ops a c) \<and>
     (\<forall>x e. fge ops x (fzero ops) \<and> fge ops e (fzero ops) \<longrightarrow> fge ops (fadd ops x e) x) \<and>
     (\<forall>x. \<not> ftruthy ops x \<longrightarrow> fge ops (fzero ops) x)"

text \<open>
  A SUPPLY_UPDATE for the charging point that the handler accepts (four fields, both
  numbers read by \<open>float\<close>), and one whose energy increment is moreover \<open>>= 0.0\<close>.
\<close>

definition accepted_update :: "'f float_ops \<Rightarrow> string \<Rightarrow> string list \<Rightarrow> bool" where
  "accepted_update ops cp_id flds \<longleftrightarrow>
     4 \<le> length flds \<and> flds ! 1 = cp_id \<and>
     fparse ops (flds ! 2) \<noteq> None \<and> fparse ops (flds ! 3) \<noteq> None"

definition accepted_increment :: "'f float_ops \<Rightarrow> string \<Rightarrow> string list \<Rightarrow> bool" where
  "accepted_increment ops cp_id flds \<longleftrightarrow>
     accepted_update ops cp_id flds \<and>
     (case fparse ops (flds ! 2) of None \<Rightarrow> False | Some e \<Rightarrow> fge ops e (fzero ops))"

text \<open>
  The accumulated energy of a charging point before a run of SUPPLY_UPDATE messages and
  after each of them.
\<close>

definition energy_of :: "'f central \<Rightarrow> string \<Rightarrow> 'f list" where
  "energy_of s cp_id =
     (case charging_points s cp_id of None \<Rightarrow> [] | Some cp \<Rightarrow> [kwh_delivered cp])"

fun energy_trace :: "'f env \<Rightarrow> string \<Rightarrow> string list list \<Rightarrow> 'f central \<Rightarrow> 'f list" where
  "energy_trace env cp_id [] s = energy_of s cp_id"
| "energy_trace env cp_id (m # ms) s =
     energy_of s cp_id @ energy_trace env cp_id ms (fst (handle_supply_update env m s))"

text \<open>A DENY message among the effects of a handler.\<close>

fun is_deny :: "'f event \<Rightarrow> bool" where
  "is_deny (Send sck k (Str t # args)) = (t = MessageTypes_DENY)"
| "is_deny _ = False"

text \<open>
  How many fields the handler that \<open>_process_fields\<close> selects for a message reads: the
  highest index it reads, plus one. REGISTER reads fields 1 and 2, and for a charging
  point also fields 3 to 7; LOG reads fields 1 and 2; a message of no known type is read
  at field 0 only, as is the empty list.
\<close>

definition fields_read :: "string list \<Rightarrow> nat" where
  "fields_read flds =
     (case flds of
        [] \<Rightarrow> 1
      | t # _ \<Rightarrow>
          if t = MessageTypes_REGISTER
            then (if 3 \<le> length flds \<and> flds ! 1 = ''CP'' then 8 else 3)
          else if t = MessageTypes_HEARTBEAT then 3
          else if t = MessageTypes_REQUEST_CHARGE then 4
          else if t = MessageTypes_QUERY_AVAILABLE_CPS then 2
          else if t = MessageTypes_SUPPLY_UPDATE then 4
          else if t = MessageTypes_SUPPLY_END then 5
          else if t = MessageTypes_END_CHARGE then 3
          else if t = ''FINISH_CHARGE'' then 3
          else if t = MessageTypes_FAULT then 2
          else if t = MessageTypes_RECOVERY then 2
          else if t = ''LOG'' then 3
          else if t = ''WEATHER_ALERT'' then 3
          else 1)"

text \<open>The second state differs from the first at most in the log.\<close>

definition only_logged :: "'f central \<Rightarrow> 'f central \<Rightarrow> bool" where
  "only_logged s s' \<longleftrightarrow> s' = s\<lparr>logs := logs s'\<rparr>"

section \<open>Facts used throughout\<close>

lemmas cp_states_defs =
  CP_STATES_DISCONNECTED_def CP_STATES_ACTIVATED_def CP_STATES_SUPPLYING_def
  CP_STATES_OUT_OF_ORDER_def

lemmas message_types_defs =
  MessageTypes_REGISTER_def MessageTypes_ACKNOWLEDGE_def MessageTypes_DENY_def
  MessageTypes_HEARTBEAT_def MessageTypes_REQUEST_CHARGE_def MessageTypes_AUTHORIZE_def
  MessageTypes_QUERY_AVAILABLE_CPS_def MessageTypes_AVAILABLE_CPS_def
  MessageTypes_SUPPLY_UPDATE_def MessageTypes_SUPPLY_END_def MessageTypes_END_SUPPLY_def
  MessageTypes_END_CHARGE_def MessageTypes_FAULT_def MessageTypes_RECOVERY_def
  MessageTypes_TICKET_def

lemmas sample_defs =
  sample_env_def sample_central_def idle_cp_def busy_cp_def idle_driver_def
  charging_driver_def

lemma set_cp_same:
  "charging_points s cp_id = Some cp \<Longrightarrow> set_cp cp_id cp s = s"
  by (simp add: set_cp_def map_upd_triv)

section \<open>Heartbeats\<close>

text \<open>
  C10. A HEARTBEAT message (at least three fields) for a known charging point writes the
  reported state into the record when the stored state is not SUPPLYING, and leaves the
  record alone when it is SUPPLYING. Whatever the case, the new state of the central is
  the old one with at most the \<open>state\<close> field of that one record replaced: every other
  field of the record, every other record and every other attribute is unchanged, nothing
  is sent and the handler returns.
\<close>

theorem heartbeat_never_overrides_supplying:
  assumes "3 \<le> length flds"
    and "charging_points s (flds ! 1) = Some cp"
  shows "handle_heartbeat flds s =
           (set_cp (flds ! 1)
              (cp\<lparr>state := (if state cp = CP_STATES_SUPPLYING then CP_STATES_SUPPLYING
                             else flds ! 2)\<rparr>) s,
            [], Returned)"
proof (cases "state cp = CP_STATES_SUPPLYING")
  case True
  then have "cp\<lparr>state := CP_STATES_SUPPLYING\<rparr> = cp" by simp
  with True assms show ?thesis
    by (simp add: handle_heartbeat_def set_cp_same)
next
  case False
  with assms show ?thesis
    by (simp add: handle_heartbeat_def)
qed

theorem heartbeat_never_overrides_supplying_witness:
  "3 \<le> length [''HEARTBEAT'', ''CP-1'', ''OUT_OF_ORDER''] \<and>
   charging_points (sample_central busy_cp charging_driver)
     ([''HEARTBEAT'', ''CP-1'', ''OUT_OF_ORDER''] ! 1) = Some busy_cp \<and>
   handle_heartbeat [''HEARTBEAT'', ''CP-1'', ''OUT_OF_ORDER'']
     (sample_central busy_cp charging_driver) =
     (sample_central busy_cp charging_driver, [], Returned) \<and>
   charging_points (sample_central idle_cp idle_driver)
     ([''HEARTBEAT'', ''CP-1'', ''OUT_OF_ORDER''] ! 1) = Some idle_cp \<and>
   handle_heartbeat [''HEARTBEAT'', ''CP-1'', ''OUT_OF_ORDER'']
     (sample_central idle_cp idle_driver) =
     (sample_central (idle_cp\<lparr>state := ''OUT_OF_ORDER''\<rparr>) idle_driver, [], Returned)"
  using heartbeat_never_overrides_supplying
          [of "[''HEARTBEAT'', ''CP-1'', ''OUT_OF_ORDER'']"
              "sample_central busy_cp charging_driver" busy_cp]
        heartbeat_never_overrides_supplying
          [of "[''HEARTBEAT'', ''CP-1'', ''OUT_OF_ORDER'']"
              "sample_central idle_cp idle_driver" idle_cp]
  by (simp add: sample_defs cp_states_defs set_cp_def)

section \<open>Connection cleanup\<close>

text \<open>
  C5. When the socket of a charging point closes (the socket is bound to the id of a known
  charging point, with kind CP), \<open>_cleanup_socket\<close> removes the socket from the two
  socket maps and the entry of the charging point in \<open>entity_to_socket\<close> when it is this
  socket. If the record is SUPPLYING, that is all: the record (state, current driver,
  accumulated energy and amount) and everything else are unchanged. If it is not
  SUPPLYING, the record gets state DISCONNECTED, no current driver and a cleared completion
  flag, its other fields unchanged.
\<close>

theorem cleanup_keeps_supplying_session:
  assumes "socket_to_entity s sck = Some cp_id"
    and "socket_to_type s sck = Some ''CP''"
    and "cp_id \<noteq> []"
    and "charging_points s cp_id = Some cp"
  shows "cleanup_socket sck client_id s =
           (let unbound =
                  s\<lparr>socket_to_entity := (socket_to_entity s)(sck := None),
                    socket_to_type := (socket_to_type s)(sck := None),
                    entity_to_socket :=
                      (if entity_to_socket s cp_id = Some sck
                       then (entity_to_socket s)(cp_id := None)
                       else entity_to_socket s)\<rparr>
            in if state cp = CP_STATES_SUPPLYING then (unbound, [Close sck])
               else (unbound
                       \<lparr>charging_points :=
                          (charging_points s)(cp_id \<mapsto>
                             cp\<lparr>state := CP_STATES_DISCONNECTED,
                                current_driver := None,
                                charging_complete := False\<rparr>),
                        active_connections := (active_connections s)(client_id := None)\<rparr>,
                     Close sck #
                     broadcast_to_ui_protocol s
                       [Str ''CP_STATE'', Str cp_id, StateJson CP_STATES_DISCONNECTED]))"
  using assms
  by (simp add: cleanup_socket_def set_cp_def Let_def broadcast_to_ui_protocol_def)

theorem cleanup_keeps_supplying_session_witness:
  "socket_to_entity (sample_central busy_cp charging_driver) 1 = Some ''CP-1'' \<and>
   socket_to_type (sample_central busy_cp charging_driver) 1 = Some ''CP'' \<and>
   ''CP-1'' \<noteq> [] \<and>
   charging_points (sample_central busy_cp charging_driver) ''CP-1'' = Some busy_cp \<and>
   state busy_cp = CP_STATES_SUPPLYING \<and>
   cleanup_socket 1 ''10.0.0.1:40001'' (sample_central busy_cp charging_driver) =
     ((sample_central busy_cp charging_driver)
        \<lparr>socket_to_entity := [2 \<mapsto> ''D-1''],
         socket_to_type := [2 \<mapsto> ''DRIVER''],
         entity_to_socket := [''D-1'' \<mapsto> 2]\<rparr>,
      [Close 1]) \<and>
   charging_points (sample_central idle_cp idle_driver) ''CP-1'' = Some idle_cp \<and>
   state idle_cp \<noteq> CP_STATES_SUPPLYING \<and>
   charging_points
     (fst (cleanup_socket 1 ''10.0.0.1:40001'' (sample_central idle_cp idle_driver))) ''CP-1'' =
     Some (idle_cp\<lparr>state := ''DISCONNECTED''\<rparr>)"
  using cleanup_keeps_supplying_session
          [of "sample_central busy_cp charging_driver" 1 "''CP-1''" busy_cp "''10.0.0.1:40001''"]
        cleanup_keeps_supplying_session
          [of "sample_central idle_cp idle_driver" 1 "''CP-1''" idle_cp "''10.0.0.1:40001''"]
  by (simp add: sample_defs cp_states_defs Let_def fun_eq_iff)

section \<open>Weather alerts\<close>

text \<open>
  A cold-weather alert for a known charging point, on the TCP path: the state is written,
  whatever it was, and the handler then calls \<open>add_log\<close> while it holds the lock.
\<close>

lemma cold_alert_blocks:
  assumes "3 \<le> length flds"
    and "charging_points s (flds ! 1) = Some cp"
    and "flds ! 2 = ''ALERT_COLD''"
  shows "handle_weather_alert flds s =
           (set_cp (flds ! 1) (cp\<lparr>state := CP_STATES_OUT_OF_ORDER\<rparr>) s, [], Blocked)"
  using assms
  by (simp add: handle_weather_alert_def add_log_def Let_def)

text \<open>
  C6. The claim wants a cold-weather alert to leave a SUPPLYING charging point as it is,
  and to take any other out of service. The code does neither: for the charging point
  \<open>CP-1\<close>, SUPPLYING for driver \<open>D-1\<close>, the message
  \<open>WEATHER_ALERT(CP-1, ALERT_COLD)\<close> writes OUT_OF_ORDER into the record and then
  never returns, the handler waiting for the lock it holds: nothing is logged or sent,
  and the loop of \<open>_handle_client\<close> does not reach the next message. The REST route
  writes the same state and blocks in the same way.
\<close>

theorem cold_alert_while_supplying:
  "state busy_cp = CP_STATES_SUPPLYING \<and>
   CP_STATES_OUT_OF_ORDER \<noteq> CP_STATES_SUPPLYING \<and>
   handle_weather_alert [''WEATHER_ALERT'', ''CP-1'', ''ALERT_COLD'']
     (sample_central busy_cp charging_driver) =
     (sample_central (busy_cp\<lparr>state := CP_STATES_OUT_OF_ORDER\<rparr>) charging_driver,
      [], Blocked) \<and>
   handle_client_step sample_env [''WEATHER_ALERT'', ''CP-1'', ''ALERT_COLD''] 5
     ''10.0.0.5:40005'' (sample_central busy_cp charging_driver) =
     (sample_central (busy_cp\<lparr>state := CP_STATES_OUT_OF_ORDER\<rparr>) charging_driver,
      [], Stuck) \<and>
   charging_points
     (fst (api_weather_alert (Some ''CP-1'') (Some ''ALERT_COLD'') ''-2.5''
             (sample_central busy_cp charging_driver))) ''CP-1'' =
     Some (busy_cp\<lparr>state := CP_STATES_OUT_OF_ORDER\<rparr>) \<and>
   snd (snd (api_weather_alert (Some ''CP-1'') (Some ''ALERT_COLD'') ''-2.5''
               (sample_central busy_cp charging_driver))) = Blocked"
proof -
  have h: "handle_weather_alert [''WEATHER_ALERT'', ''CP-1'', ''ALERT_COLD'']
     (sample_central busy_cp charging_driver) =
     (sample_central (busy_cp\<lparr>state := CP_STATES_OUT_OF_ORDER\<rparr>) charging_driver,
      [], Blocked)"
    using cold_alert_blocks
            [of "[''WEATHER_ALERT'', ''CP-1'', ''ALERT_COLD'']"
                "sample_central busy_cp charging_driver" busy_cp]
    by (simp add: sample_central_def set_cp_def)
  have p: "process_fields sample_env [''WEATHER_ALERT'', ''CP-1'', ''ALERT_COLD''] 5
     ''10.0.0.5:40005'' (sample_central busy_cp charging_driver) =
     handle_weather_alert [''WEATHER_ALERT'', ''CP-1'', ''ALERT_COLD'']
       (sample_central busy_cp charging_driver)"
    by (simp add: process_fields_def message_types_defs)
  have a: "charging_points
     (fst (api_weather_alert (Some ''CP-1'') (Some ''ALERT_COLD'') ''-2.5''
             (sample_central busy_cp charging_driver))) ''CP-1'' =
     Some (busy_cp\<lparr>state := CP_STATES_OUT_OF_ORDER\<rparr>) \<and>
   snd (snd (api_weather_alert (Some ''CP-1'') (Some ''ALERT_COLD'') ''-2.5''
               (sample_central busy_cp charging_driver))) = Blocked"
    by (simp add: api_weather_alert_def add_log_def set_cp_def sample_central_def Let_def
          broadcast_to_ui_protocol_def)
  have st: "handle_client_step sample_env [''WEATHER_ALERT'', ''CP-1'', ''ALERT_COLD''] 5
     ''10.0.0.5:40005'' (sample_central busy_cp charging_driver) =
     (sample_central (busy_cp\<lparr>state := CP_STATES_OUT_OF_ORDER\<rparr>) charging_driver,
      [], Stuck)"
    by (simp add: handle_client_step_def p h)
  have c: "state busy_cp = CP_STATES_SUPPLYING" "CP_STATES_OUT_OF_ORDER \<noteq> CP_STATES_SUPPLYING"
    by (simp_all add: busy_cp_def cp_states_defs)
  from c h st a show ?thesis
    by blast
qed

section \<open>AUTHORIZE at the charging-point engine\<close>

text \<open>
  C9. An AUTHORIZE message is \<open>AUTHORIZE(driverId, cpId, energyNeeded, ...)\<close>: at least
  four fields, the fourth a number. When the engine is ACTIVATED, such a message moves it
  to SUPPLYING, records the driver and opens a fresh session: start time the current
  clock, energy needed from the message, energy delivered 0. When the engine is not
  ACTIVATED, handler and listen loop leave the engine exactly as it was. Moreover, with
  the engine not ACTIVATED, no list of fields whatever changes the state, the driver or
  the session.
\<close>

theorem authorize_starts_session_only_when_activated:
  "(4 \<le> length flds \<and> fparse ops (flds ! 3) = Some needed \<and>
    eng_state e = CP_STATES_ACTIVATED \<longrightarrow>
      listen_authorize ops now flds e =
        e\<lparr>eng_state := CP_STATES_SUPPLYING,
          eng_current_driver := Some (flds ! 1),
          current_session :=
            Some \<lparr>start = now, session_kwh_needed = needed,
                  session_kwh_delivered = fzero ops\<rparr>,
          eng_charging_complete := False\<rparr>) \<and>
   (4 \<le> length flds \<and> fparse ops (flds ! 3) = Some needed \<and>
    eng_state e \<noteq> CP_STATES_ACTIVATED \<longrightarrow>
      handle_authorize ops now flds e = (e, Returned) \<and>
      listen_authorize ops now flds e = e) \<and>
   (eng_state e \<noteq> CP_STATES_ACTIVATED \<longrightarrow>
      eng_state (listen_authorize ops now flds e) = eng_state e \<and>
      eng_current_driver (listen_authorize ops now flds e) = eng_current_driver e \<and>
      current_session (listen_authorize ops now flds e) = current_session e)"
  by (auto simp: listen_authorize_def handle_authorize_def close_central_socket_def Let_def
        split: option.splits)

theorem authorize_starts_session_only_when_activated_witness:
  "4 \<le> length [''AUTHORIZE'', ''D-1'', ''CP-1'', ''10''] \<and>
   fparse exact_ops ([''AUTHORIZE'', ''D-1'', ''CP-1'', ''10''] ! 3) = Some 10 \<and>
   eng_state (sample_engine ''ACTIVATED'') = CP_STATES_ACTIVATED \<and>
   listen_authorize exact_ops 1000 [''AUTHORIZE'', ''D-1'', ''CP-1'', ''10'']
     (sample_engine ''ACTIVATED'') =
     \<lparr>eng_state = ''SUPPLYING'', eng_current_driver = Some ''D-1'',
      current_session =
        Some \<lparr>start = 1000, session_kwh_needed = 10, session_kwh_delivered = 0\<rparr>,
      eng_charging_complete = False, central_socket = Some 7, connected = True\<rparr> \<and>
   eng_state (sample_engine ''OUT_OF_ORDER'') \<noteq> CP_STATES_ACTIVATED \<and>
   listen_authorize exact_ops 1000 [''AUTHORIZE'', ''D-1'', ''CP-1'', ''10'']
     (sample_engine ''OUT_OF_ORDER'') = sample_engine ''OUT_OF_ORDER''"
proof -
  have p: "fparse exact_ops ([''AUTHORIZE'', ''D-1'', ''CP-1'', ''10''] ! 3) = Some 10"
    by (simp add: exact_ops_def parse_decimal_def parse_unsigned_def Let_def)
  show ?thesis
    using p
      authorize_starts_session_only_when_activated
        [of "[''AUTHORIZE'', ''D-1'', ''CP-1'', ''10'']" exact_ops 10
            "sample_engine ''ACTIVATED''" 1000]
      authorize_starts_session_only_when_activated
        [of "[''AUTHORIZE'', ''D-1'', ''CP-1'', ''10'']" exact_ops 10
            "sample_engine ''OUT_OF_ORDER''" 1000]
    by (simp add: sample_engine_def cp_states_defs exact_ops_def)
qed

section \<open>Finalizing a session\<close>

lemma billed_append: "billed (xs @ ys) = billed xs @ billed ys"
  by (induction xs rule: billed.induct) simp_all

lemma tickets_append: "tickets (xs @ ys) = tickets xs @ tickets ys"
  by (induction xs rule: tickets.induct) simp_all

lemma broadcast_billed: "billed (broadcast_to_ui_protocol s msg) = []"
  by (simp add: broadcast_to_ui_protocol_def split: option.splits)

lemma broadcast_tickets:
  "t \<noteq> MessageTypes_TICKET \<Longrightarrow> tickets (broadcast_to_ui_protocol s (Str t # args)) = []"
  by (simp add: broadcast_to_ui_protocol_def split: option.splits)

lemma finalize_cps:
  "charging_points (fst (finalize_charge env cp_id d k a s)) =
     (case charging_points s cp_id of
        None \<Rightarrow> charging_points s
      | Some cp \<Rightarrow>
          (charging_points s)(cp_id \<mapsto>
             cp\<lparr>state := CP_STATES_ACTIVATED, current_driver := None, session_start := None,
                charging_complete := True, kwh_needed := fzero (fops env),
                kwh_delivered := fzero (fops env), amount_euro := fzero (fops env)\<rparr>))"
  by (simp add: finalize_charge_def Let_def set_cp_def split: option.splits)

lemma finalize_drivers:
  "drivers (fst (finalize_charge env cp_id d k a s)) =
     (case drivers s d of
        None \<Rightarrow> drivers s
      | Some dr \<Rightarrow> (drivers s)(d \<mapsto> dr\<lparr>status := ''IDLE'', current_cp := None\<rparr>))"
  by (simp add: finalize_charge_def Let_def set_cp_def split: option.splits)

lemma finalize_sockets:
  "entity_to_socket (fst (finalize_charge env cp_id d k a s)) = entity_to_socket s"
  by (simp add: finalize_charge_def Let_def set_cp_def split: option.splits)

lemma finalize_billed:
  "billed (fst (snd (finalize_charge env cp_id d k a s))) =
     (if storage_ok env then [(d, a)] else [])"
  by (simp add: finalize_charge_def Let_def billed_append broadcast_billed split: option.splits)

lemma finalize_tickets:
  "tickets (fst (snd (finalize_charge env cp_id d k a s))) =
     (case entity_to_socket s d of
        None \<Rightarrow> []
      | Some dsock \<Rightarrow> [(dsock, [Str cp_id, Flt k, Flt a])])"
proof -
  have ne: "''DRIVER_STOP'' \<noteq> MessageTypes_TICKET" "MessageTypes_SUPPLY_END \<noteq> MessageTypes_TICKET"
    by (simp_all add: message_types_defs)
  show ?thesis
    by (simp add: finalize_charge_def Let_def set_cp_def tickets_append
          broadcast_tickets [OF ne(1)] broadcast_tickets [OF ne(2)] split: option.splits)
qed

lemma finalize_returns: "snd (snd (finalize_charge env cp_id d k a s)) = Returned"
  by (simp add: finalize_charge_def Let_def)

text \<open>
  C1. \<open>_finalize_charge\<close>, for any charging point id, driver id and totals, from any
  state: the record of the charging point, if there is one, becomes ACTIVATED with no
  current driver, no session start, and energy needed, accumulated energy and accumulated
  amount all \<open>0.0\<close> (its completion flag is set); no other record changes; the driver,
  if registered, becomes IDLE with no current charging point. A second call for the same
  charging point, with any driver and totals, leaves the charging-point records as the
  first call left them, so not SUPPLYING. Each call hands to \<open>update_driver_stats\<close>
  exactly the amount it was passed (nothing, when the storage call before it fails), and
  sends at most one ticket, carrying exactly the totals it was passed: nothing accumulates
  from one call to the next. Both calls return.
\<close>

theorem finalize_resets_and_repeats:
  assumes "fops env2 = fops env1"
  shows
    "let r1 = finalize_charge env1 cp_id d1 k1 a1 s;
         r2 = finalize_charge env2 cp_id d2 k2 a2 (fst r1);
         reset = (\<lambda>cp. cp\<lparr>state := CP_STATES_ACTIVATED,
                           current_driver := None,
                           session_start := None,
                           charging_complete := True,
                           kwh_needed := fzero (fops env1),
                           kwh_delivered := fzero (fops env1),
                           amount_euro := fzero (fops env1)\<rparr>);
         idle = (\<lambda>d. d\<lparr>status := ''IDLE'', current_cp := None\<rparr>)
     in charging_points (fst r1) =
          (case charging_points s cp_id of
             None \<Rightarrow> charging_points s
           | Some cp \<Rightarrow> (charging_points s)(cp_id \<mapsto> reset cp)) \<and>
        drivers (fst r1) =
          (case drivers s d1 of
             None \<Rightarrow> drivers s
           | Some d \<Rightarrow> (drivers s)(d1 \<mapsto> idle d)) \<and>
        charging_points (fst r2) = charging_points (fst r1) \<and>
        map_option state (charging_points (fst r2) cp_id) \<noteq> Some CP_STATES_SUPPLYING \<and>
        drivers (fst r2) =
          (case drivers (fst r1) d2 of
             None \<Rightarrow> drivers (fst r1)
           | Some d \<Rightarrow> (drivers (fst r1))(d2 \<mapsto> idle d)) \<and>
        billed (fst (snd r1)) = (if storage_ok env1 then [(d1, a1)] else []) \<and>
        billed (fst (snd r2)) = (if storage_ok env2 then [(d2, a2)] else []) \<and>
        tickets (fst (snd r1)) =
          (case entity_to_socket s d1 of
             None \<Rightarrow> []
           | Some dsock \<Rightarrow> [(dsock, [Str cp_id, Flt k1, Flt a1])]) \<and>
        tickets (fst (snd r2)) =
          (case entity_to_socket s d2 of
             None \<Rightarrow> []
           | Some dsock \<Rightarrow> [(dsock, [Str cp_id, Flt k2, Flt a2])]) \<and>
        snd (snd r1) = Returned \<and> snd (snd r2) = Returned"
proof -
  define s1 where "s1 = fst (finalize_charge env1 cp_id d1 k1 a1 s)"
  have ne: "CP_STATES_ACTIVATED \<noteq> CP_STATES_SUPPLYING"
    by (simp add: cp_states_defs)
  have c1: "charging_points s1 =
     (case charging_points s cp_id of
        None \<Rightarrow> charging_points s
      | Some cp \<Rightarrow>
          (charging_points s)(cp_id \<mapsto>
             cp\<lparr>state := CP_STATES_ACTIVATED, current_driver := None, session_start := None,
                charging_complete := True, kwh_needed := fzero (fops env1),
                kwh_delivered := fzero (fops env1), amount_euro := fzero (fops env1)\<rparr>))"
    unfolding s1_def by (rule finalize_cps)
  have c2: "charging_points (fst (finalize_charge env2 cp_id d2 k2 a2 s1)) = charging_points s1"
    by (simp add: finalize_cps c1 assms fun_eq_iff split: option.splits)
  have c3: "map_option state (charging_points s1 cp_id) \<noteq> Some CP_STATES_SUPPLYING"
    using ne by (simp add: c1 split: option.splits)
  have e1: "entity_to_socket s1 = entity_to_socket s"
    unfolding s1_def by (rule finalize_sockets)
  have dr1: "drivers s1 =
     (case drivers s d1 of
        None \<Rightarrow> drivers s
      | Some d \<Rightarrow> (drivers s)(d1 \<mapsto> d\<lparr>status := ''IDLE'', current_cp := None\<rparr>))"
    unfolding s1_def by (rule finalize_drivers)
  have c4: "map_option state (charging_points (fst (finalize_charge env2 cp_id d2 k2 a2 s1)) cp_id)
              \<noteq> Some CP_STATES_SUPPLYING"
    using c3 by (simp add: c2)
  show ?thesis
    unfolding Let_def s1_def [symmetric]
    apply (intro conjI)
              apply (rule c1)
             apply (rule dr1)
            apply (rule c2)
           apply (rule c4)
          apply (rule finalize_drivers)
         apply (simp add: s1_def finalize_billed)
        apply (rule finalize_billed)
       apply (simp add: s1_def finalize_tickets)
      apply (simp add: finalize_tickets e1)
     apply (simp add: s1_def finalize_returns)
    apply (rule finalize_returns)
    done
qed


theorem finalize_resets_and_repeats_witness:
  "fops sample_env = fops sample_env \<and>
   charging_points
     (fst (finalize_charge sample_env ''CP-1'' ''D-1'' 5 (5 / 2)
             (sample_central busy_cp charging_driver))) =
     [''CP-1'' \<mapsto> idle_cp\<lparr>charging_complete := True\<rparr>] \<and>
   drivers
     (fst (finalize_charge sample_env ''CP-1'' ''D-1'' 5 (5 / 2)
             (sample_central busy_cp charging_driver))) =
     [''D-1'' \<mapsto> idle_driver] \<and>
   charging_points
     (fst (finalize_charge sample_env ''CP-1'' ''D-1'' 10 5
             (fst (finalize_charge sample_env ''CP-1'' ''D-1'' 5 (5 / 2)
                     (sample_central busy_cp charging_driver))))) =
     [''CP-1'' \<mapsto> idle_cp\<lparr>charging_complete := True\<rparr>] \<and>
   billed
     (fst (snd (finalize_charge sample_env ''CP-1'' ''D-1'' 5 (5 / 2)
                  (sample_central busy_cp charging_driver)))) = [(''D-1'', 5 / 2)] \<and>
   billed
     (fst (snd (finalize_charge sample_env ''CP-1'' ''D-1'' 10 5
                  (fst (finalize_charge sample_env ''CP-1'' ''D-1'' 5 (5 / 2)
                          (sample_central busy_cp charging_driver)))))) = [(''D-1'', 5)] \<and>
   tickets
     (fst (snd (finalize_charge sample_env ''CP-1'' ''D-1'' 10 5
                  (fst (finalize_charge sample_env ''CP-1'' ''D-1'' 5 (5 / 2)
                          (sample_central busy_cp charging_driver)))))) =
     [(2, [Str ''CP-1'', Flt 10, Flt 5])]"
  using finalize_resets_and_repeats
          [of sample_env sample_env "''CP-1''" "''D-1''" 5 "5 / 2"
              "sample_central busy_cp charging_driver" "''D-1''" 10 5]
  by (simp add: Let_def sample_defs cp_states_defs exact_ops_def)

section \<open>Metering\<close>

text \<open>What an accepted SUPPLY_UPDATE does to the record of its charging point.\<close>

lemma supply_update_record:
  assumes "4 \<le> length flds"
    and "fparse (fops env) (flds ! 2) = Some e"
    and "fparse (fops env) (flds ! 3) = Some a"
    and "charging_points s (flds ! 1) = Some cp"
  shows "charging_points (fst (handle_supply_update env flds s)) =
           (charging_points s)(flds ! 1 \<mapsto>
              cp\<lparr>kwh_delivered :=
                     fadd (fops env) (float_or_zero (fops env) (kwh_delivered cp)) e,
                 amount_euro :=
                   fround (fops env) 2
                     (if fge (fops env) a (float_or_zero (fops env) (amount_euro cp)) \<and>
                         fge (fops env) a
                           (fmul (fops env)
                              (fmul (fops env)
                                 (fadd (fops env)
                                    (float_or_zero (fops env) (kwh_delivered cp)) e)
                                 (price_per_kwh cp))
                              (flit (fops env) ''0.7''))
                      then a
                      else fadd (fops env) (float_or_zero (fops env) (amount_euro cp))
                             (fmul (fops env) e (price_per_kwh cp))),
                 charging_complete :=
                   (charging_complete cp \<or>
                    fgt (fops env) (float_or_zero (fops env) (kwh_needed cp)) (fzero (fops env)) \<and>
                    fge (fops env)
                      (fadd (fops env) (float_or_zero (fops env) (kwh_delivered cp)) e)
                      (float_or_zero (fops env) (kwh_needed cp)) \<and>
                    \<not> charging_complete cp)\<rparr>)"
  using assms
  by (simp add: handle_supply_update_def Let_def set_cp_def)

text \<open>
  C2. A SUPPLY_UPDATE accepted for a known charging point (four fields, the increment \<open>e\<close>
  and the amount \<open>a\<close> read by \<open>float\<close>) sets the accumulated energy to the previous
  one plus \<open>e\<close>. If \<open>a\<close> is both \<open>>=\<close> the previously stored amount and \<open>>=\<close>
  the new accumulated energy times the price times \<open>0.7\<close>, the stored amount becomes \<open>a\<close>;
  otherwise it becomes the previous amount plus \<open>e\<close> times the price; either way rounded
  to 2 decimal places. The previous values are read through \<open>x or 0.0\<close>, which gives
  the stored number.
\<close>

theorem supply_update_amount:
  assumes "4 \<le> length flds"
    and "fparse (fops env) (flds ! 2) = Some e"
    and "fparse (fops env) (flds ! 3) = Some a"
    and "charging_points s (flds ! 1) = Some cp"
  shows
    "let ops = fops env;
         previous = float_or_zero ops (amount_euro cp);
         energy = fadd ops (float_or_zero ops (kwh_delivered cp)) e;
         price = price_per_kwh cp;
         after = charging_points (fst (handle_supply_update env flds s)) (flds ! 1)
     in map_option kwh_delivered after = Some energy \<and>
        map_option amount_euro after =
          Some (fround ops 2
                  (if fge ops a previous \<and>
                      fge ops a (fmul ops (fmul ops energy price) (flit ops ''0.7''))
                   then a
                   else fadd ops previous (fmul ops e price)))"
  using supply_update_record [OF assms]
  by (simp add: Let_def)

lemma exact_parse_samples:
  "fparse exact_ops ''5'' = Some 5"
  "fparse exact_ops ''1'' = Some 1"
  "fparse exact_ops ''0'' = Some 0"
  "fparse exact_ops ''0.5'' = Some (1 / 2)"
  "fparse exact_ops ''-3'' = Some (- 3)"
  "flit exact_ops ''0.7'' = 7 / 10"
  by (simp_all add: exact_ops_def parse_decimal_def parse_unsigned_def Let_def)

theorem supply_update_amount_witness:
  "4 \<le> length [''SUPPLY_UPDATE'', ''CP-1'', ''5'', ''5''] \<and>
   fparse (fops sample_env) ([''SUPPLY_UPDATE'', ''CP-1'', ''5'', ''5''] ! 2) = Some 5 \<and>
   fparse (fops sample_env) ([''SUPPLY_UPDATE'', ''CP-1'', ''5'', ''5''] ! 3) = Some 5 \<and>
   charging_points (sample_central busy_cp charging_driver)
     ([''SUPPLY_UPDATE'', ''CP-1'', ''5'', ''5''] ! 1) = Some busy_cp \<and>
   map_option amount_euro
     (charging_points
        (fst (handle_supply_update sample_env [''SUPPLY_UPDATE'', ''CP-1'', ''5'', ''5'']
                (sample_central busy_cp charging_driver))) ''CP-1'') = Some 5 \<and>
   4 \<le> length [''SUPPLY_UPDATE'', ''CP-1'', ''1'', ''0.5''] \<and>
   fparse (fops sample_env) ([''SUPPLY_UPDATE'', ''CP-1'', ''1'', ''0.5''] ! 2) = Some 1 \<and>
   fparse (fops sample_env) ([''SUPPLY_UPDATE'', ''CP-1'', ''1'', ''0.5''] ! 3) = Some (1 / 2) \<and>
   map_option amount_euro
     (charging_points
        (fst (handle_supply_update sample_env [''SUPPLY_UPDATE'', ''CP-1'', ''1'', ''0.5'']
                (sample_central busy_cp charging_driver))) ''CP-1'') = Some 3"
proof -
  have ops: "fops sample_env = exact_ops"
    by (simp add: sample_env_def)
  have r: "fround exact_ops 2 5 = 5" "fround exact_ops 2 3 = 3"
    by (simp_all add: exact_ops_def round_half_even_def Let_def)
  have a: "fadd exact_ops = (\<lambda>a b. a + b)" "fmul exact_ops = (\<lambda>a b. a * b)"
    "fge exact_ops = (\<lambda>a b. b \<le> a)" "ftruthy exact_ops = (\<lambda>a. a \<noteq> 0)"
    by (simp_all add: exact_ops_def)
  have cp: "charging_points (sample_central busy_cp charging_driver) ''CP-1'' = Some busy_cp"
    by (simp add: sample_central_def)
  have b: "kwh_delivered busy_cp = 5" "amount_euro busy_cp = 5 / 2" "price_per_kwh busy_cp = 1 / 2"
    by (simp_all add: busy_cp_def)
  show ?thesis
    using supply_update_amount
            [of "[''SUPPLY_UPDATE'', ''CP-1'', ''5'', ''5'']" sample_env 5 5
                "sample_central busy_cp charging_driver" busy_cp]
          supply_update_amount
            [of "[''SUPPLY_UPDATE'', ''CP-1'', ''1'', ''0.5'']" sample_env 1 "1 / 2"
                "sample_central busy_cp charging_driver" busy_cp]
    by (simp add: ops exact_parse_samples cp b a r Let_def float_or_zero_def)
qed

text \<open>
  C8, as stated, fails: the increment is added whatever its sign. The accepted update
  \<open>SUPPLY_UPDATE(CP-1, -3, 0)\<close> takes the accumulated energy of a session from 5 down
  to 2.
\<close>

theorem negative_increment_lowers_energy:
  "accepted_update exact_ops ''CP-1'' [''SUPPLY_UPDATE'', ''CP-1'', ''-3'', ''0''] \<and>
   energy_trace sample_env ''CP-1'' [[''SUPPLY_UPDATE'', ''CP-1'', ''-3'', ''0'']]
     (sample_central busy_cp charging_driver) = [5, 2] \<and>
   \<not> fge exact_ops 2 5"
proof -
  have ops: "fops sample_env = exact_ops"
    by (simp add: sample_env_def)
  have a: "fadd exact_ops = (\<lambda>a b. a + b)" "fge exact_ops = (\<lambda>a b. b \<le> a)"
    "ftruthy exact_ops = (\<lambda>a. a \<noteq> 0)"
    by (simp_all add: exact_ops_def)
  have cp: "charging_points (sample_central busy_cp charging_driver) ''CP-1'' = Some busy_cp"
    by (simp add: sample_central_def)
  have b: "kwh_delivered busy_cp = 5"
    by (simp add: busy_cp_def)
  have "charging_points
          (fst (handle_supply_update sample_env [''SUPPLY_UPDATE'', ''CP-1'', ''-3'', ''0'']
                  (sample_central busy_cp charging_driver))) ''CP-1'' \<noteq> None \<and>
        map_option kwh_delivered
          (charging_points
             (fst (handle_supply_update sample_env [''SUPPLY_UPDATE'', ''CP-1'', ''-3'', ''0'']
                     (sample_central busy_cp charging_driver))) ''CP-1'') = Some 2"
    using supply_update_record
            [of "[''SUPPLY_UPDATE'', ''CP-1'', ''-3'', ''0'']" sample_env "- 3" 0
                "sample_central busy_cp charging_driver" busy_cp]
    by (simp add: ops exact_parse_samples cp b a float_or_zero_def)
  then show ?thesis
    by (auto simp: accepted_update_def exact_parse_samples energy_of_def cp b a)
qed

lemma energy_step:
  assumes laws: "ordered_floats (fops env)"
    and acc: "accepted_increment (fops env) cp_id m"
    and cp: "charging_points s cp_id = Some cp"
    and pos: "fge (fops env) (kwh_delivered cp) (fzero (fops env))"
  shows "\<exists>cp'. charging_points (fst (handle_supply_update env m s)) cp_id = Some cp' \<and>
               fge (fops env) (kwh_delivered cp') (kwh_delivered cp) \<and>
               fge (fops env) (kwh_delivered cp') (fzero (fops env))"
proof -
  let ?ops = "fops env"
  from acc have len: "4 \<le> length m" and id: "m ! 1 = cp_id"
    and pa': "fparse ?ops (m ! 3) \<noteq> None"
    by (simp_all add: accepted_increment_def accepted_update_def)
  from pa' obtain a where pa: "fparse ?ops (m ! 3) = Some a"
    by (cases "fparse ?ops (m ! 3)") simp_all
  from acc obtain e where pe: "fparse ?ops (m ! 2) = Some e" and e0: "fge ?ops e (fzero ?ops)"
    by (cases "fparse ?ops (m ! 2)") (simp_all add: accepted_increment_def)
  from laws have z: "fge ?ops (fzero ?ops) (fzero ?ops)"
    by (simp add: ordered_floats_def)
  from laws have tr: "fge ?ops a b \<Longrightarrow> fge ?ops b c \<Longrightarrow> fge ?ops a c" for a b c
    unfolding ordered_floats_def by blast
  from laws have ad: "fge ?ops x (fzero ?ops) \<Longrightarrow> fge ?ops y (fzero ?ops) \<Longrightarrow>
                fge ?ops (fadd ?ops x y) x" for x y
    unfolding ordered_floats_def by blast
  from laws have fz: "\<not> ftruthy ?ops x \<Longrightarrow> fge ?ops (fzero ?ops) x" for x
    unfolding ordered_floats_def by blast
  let ?new = "fadd ?ops (float_or_zero ?ops (kwh_delivered cp)) e"
  have ge1: "fge ?ops ?new (kwh_delivered cp)"
  proof (cases "ftruthy ?ops (kwh_delivered cp)")
    case True
    then have "?new = fadd ?ops (kwh_delivered cp) e"
      by (simp add: float_or_zero_def)
    then show ?thesis using ad [OF pos e0] by simp
  next
    case False
    then have n: "?new = fadd ?ops (fzero ?ops) e"
      by (simp add: float_or_zero_def)
    have "fge ?ops (fadd ?ops (fzero ?ops) e) (fzero ?ops)"
      by (rule ad [OF z e0])
    from tr [OF this fz [OF False]] show ?thesis using n by simp
  qed
  have ge2: "fge ?ops ?new (fzero ?ops)"
    by (rule tr [OF ge1 pos])
  from cp id have cp': "charging_points s (m ! 1) = Some cp" by simp
  have "map_option kwh_delivered (charging_points (fst (handle_supply_update env m s)) cp_id) =
          Some ?new"
    using supply_update_record [OF len pe pa cp'] id by simp
  then obtain cp2 where "charging_points (fst (handle_supply_update env m s)) cp_id = Some cp2"
    and "kwh_delivered cp2 = ?new"
    by (cases "charging_points (fst (handle_supply_update env m s)) cp_id") simp_all
  with ge1 ge2 show ?thesis by simp
qed


lemma energy_trace_sorted:
  assumes laws: "ordered_floats (fops env)"
  shows "\<forall>m \<in> set msgs. accepted_increment (fops env) cp_id m \<Longrightarrow>
         charging_points s cp_id = Some cp \<Longrightarrow>
         fge (fops env) (kwh_delivered cp) (fzero (fops env)) \<Longrightarrow>
         (\<exists>rest. energy_trace env cp_id msgs s = kwh_delivered cp # rest \<and>
                 length rest = length msgs) \<and>
         sorted_wrt (\<lambda>u v. fge (fops env) v u) (energy_trace env cp_id msgs s)"
proof (induction msgs arbitrary: s cp)
  case Nil
  then show ?case by (simp add: energy_of_def)
next
  case (Cons m ms)
  from laws have tr: "fge (fops env) a b \<Longrightarrow> fge (fops env) b c \<Longrightarrow> fge (fops env) a c"
    for a b c
    unfolding ordered_floats_def by blast
  from Cons.prems(1) have acc: "accepted_increment (fops env) cp_id m"
    by simp
  from Cons.prems(1) have rest: "\<forall>m \<in> set ms. accepted_increment (fops env) cp_id m"
    by simp
  let ?s' = "fst (handle_supply_update env m s)"
  from energy_step [OF laws acc Cons.prems(2) Cons.prems(3)]
  obtain cp' where cp': "charging_points ?s' cp_id = Some cp'"
    and up: "fge (fops env) (kwh_delivered cp') (kwh_delivered cp)"
    and pos': "fge (fops env) (kwh_delivered cp') (fzero (fops env))"
    by blast
  from Cons.IH [OF rest cp' pos']
  obtain tl where tr_eq: "energy_trace env cp_id ms ?s' = kwh_delivered cp' # tl"
    and len: "length tl = length ms"
    by blast
  from Cons.IH [OF rest cp' pos']
  have srt: "sorted_wrt (\<lambda>u v. fge (fops env) v u) (kwh_delivered cp' # tl)"
    by (simp only: tr_eq)
  have all: "fge (fops env) v (kwh_delivered cp)" if "v \<in> set (kwh_delivered cp' # tl)" for v
  proof (cases "v = kwh_delivered cp'")
    case True
    with up show ?thesis by simp
  next
    case False
    with that have "v \<in> set tl" by simp
    with srt have "fge (fops env) v (kwh_delivered cp')" by simp
    from tr [OF this up] show ?thesis .
  qed
  have eq: "energy_trace env cp_id (m # ms) s = kwh_delivered cp # kwh_delivered cp' # tl"
    using Cons.prems(2) tr_eq by (simp add: energy_of_def)
  have "sorted_wrt (\<lambda>u v. fge (fops env) v u) (kwh_delivered cp # kwh_delivered cp' # tl)"
    using srt all by (simp del: set_simps(2) add: sorted_wrt.simps(2) [of _ "kwh_delivered cp"])
  with eq len show ?case by simp
qed

section \<open>Messages that are too short\<close>

lemma only_logged_refl: "only_logged s s"
  by (simp add: only_logged_def)

lemma add_log_unlocked:
  "only_logged s (fst (add_log False src txt s))"
  "snd (snd (add_log False src txt s)) = Returned"
  by (simp_all add: add_log_def only_logged_def Let_def)

lemma short_register:
  assumes "length flds < (if 3 \<le> length flds \<and> flds ! 1 = ''CP'' then 8 else 3)"
  shows "only_logged s (fst (handle_register env flds sck s)) \<and>
         snd (snd (handle_register env flds sck s)) \<noteq> Blocked"
proof (cases "length flds < 3")
  case True
  then show ?thesis by (simp add: handle_register_def only_logged_refl)
next
  case False
  with assms have cp: "flds ! 1 = ''CP''" and len: "length flds < 8"
    by (simp_all split: if_splits)
  have v: "verify_cp_credentials env (flds ! 2)
             (if 6 < length flds then Some (flds ! 6) else None)
             (if 7 < length flds then Some (flds ! 7) else None) s = (s, False)"
    using len by (simp add: verify_cp_credentials_def verify_cp_def split: option.splits)
  show ?thesis
    using False cp v
    by (simp add: handle_register_def Let_def send_raising_def only_logged_refl)
qed

lemma short_others:
  "length flds < 3 \<Longrightarrow> handle_heartbeat flds s = (s, [], Returned)"
  "length flds < 2 \<Longrightarrow> handle_query_available_cps flds sck s = (s, [], Returned)"
  "length flds < 5 \<Longrightarrow> handle_supply_end env flds s = (s, [], Returned)"
  "length flds < 3 \<Longrightarrow> handle_end_charge env flds s = (s, [], Returned)"
  "length flds < 2 \<Longrightarrow> handle_fault flds s = (s, [], Returned)"
  "length flds < 2 \<Longrightarrow> handle_recovery flds s = (s, [], Returned)"
  "length flds < 3 \<Longrightarrow> handle_weather_alert flds s = (s, [], Returned)"
  by (simp_all add: handle_heartbeat_def handle_query_available_cps_def handle_supply_end_def
        handle_end_charge_def handle_fault_def handle_recovery_def handle_weather_alert_def)

lemma short_logging:
  "length flds < 4 \<Longrightarrow>
     handle_charge_request env flds sck cid s =
       add_log False ''EV_Central''
         (''Invalid REQUEST_CHARGE from '' @ cid @ '': '' @ fields_repr flds) s"
  "length flds < 4 \<Longrightarrow>
     handle_supply_update env flds s =
       add_log False ''EV_Central'' (''Invalid SUPPLY_UPDATE: '' @ fields_repr flds) s"
  by (simp_all add: handle_charge_request_def handle_supply_update_def)

lemma step_status:
  "snd (snd (handle_client_step env flds sck cid s)) =
     (if snd (snd (process_fields env flds sck cid s)) = Blocked then Stuck else Continue)"
  by (simp add: handle_client_step_def split: prod.splits outcome.splits)

lemma dispatch:
  "process_fields env (MessageTypes_REGISTER # r) sck cid s =
     handle_register env (MessageTypes_REGISTER # r) sck s"
  "process_fields env (MessageTypes_HEARTBEAT # r) sck cid s =
     handle_heartbeat (MessageTypes_HEARTBEAT # r) s"
  "process_fields env (MessageTypes_REQUEST_CHARGE # r) sck cid s =
     handle_charge_request env (MessageTypes_REQUEST_CHARGE # r) sck cid s"
  "process_fields env (MessageTypes_QUERY_AVAILABLE_CPS # r) sck cid s =
     handle_query_available_cps (MessageTypes_QUERY_AVAILABLE_CPS # r) sck s"
  "process_fields env (MessageTypes_SUPPLY_UPDATE # r) sck cid s =
     handle_supply_update env (MessageTypes_SUPPLY_UPDATE # r) s"
  "process_fields env (MessageTypes_SUPPLY_END # r) sck cid s =
     handle_supply_end env (MessageTypes_SUPPLY_END # r) s"
  "process_fields env (MessageTypes_END_CHARGE # r) sck cid s =
     handle_end_charge env (MessageTypes_END_CHARGE # r) s"
  "process_fields env (''FINISH_CHARGE'' # r) sck cid s =
     (if length (''FINISH_CHARGE'' # r) < 3 then (s, [], Raised IndexError)
      else handle_end_charge env
             [''END_CHARGE'', (''FINISH_CHARGE'' # r) ! 1, (''FINISH_CHARGE'' # r) ! 2] s)"
  "process_fields env (MessageTypes_FAULT # r) sck cid s =
     handle_fault (MessageTypes_FAULT # r) s"
  "process_fields env (MessageTypes_RECOVERY # r) sck cid s =
     handle_recovery (MessageTypes_RECOVERY # r) s"
  "process_fields env (''LOG'' # r) sck cid s =
     add_log False (if 1 < length (''LOG'' # r) then (''LOG'' # r) ! 1 else ''UNKNOWN'')
       (if 2 < length (''LOG'' # r) then (''LOG'' # r) ! 2 else []) s"
  "process_fields env (''WEATHER_ALERT'' # r) sck cid s =
     handle_weather_alert (''WEATHER_ALERT'' # r) s"
  by (simp_all add: process_fields_def message_types_defs)

lemma fields_read_table:
  "fields_read (MessageTypes_REGISTER # r) =
     (if 3 \<le> length (MessageTypes_REGISTER # r) \<and> (MessageTypes_REGISTER # r) ! 1 = ''CP''
      then 8 else 3)"
  "fields_read (MessageTypes_HEARTBEAT # r) = 3"
  "fields_read (MessageTypes_REQUEST_CHARGE # r) = 4"
  "fields_read (MessageTypes_QUERY_AVAILABLE_CPS # r) = 2"
  "fields_read (MessageTypes_SUPPLY_UPDATE # r) = 4"
  "fields_read (MessageTypes_SUPPLY_END # r) = 5"
  "fields_read (MessageTypes_END_CHARGE # r) = 3"
  "fields_read (''FINISH_CHARGE'' # r) = 3"
  "fields_read (MessageTypes_FAULT # r) = 2"
  "fields_read (MessageTypes_RECOVERY # r) = 2"
  "fields_read (''LOG'' # r) = 3"
  "fields_read (''WEATHER_ALERT'' # r) = 3"
  by (simp_all add: fields_read_def message_types_defs)

lemma fields_read_other:
  assumes "t \<noteq> MessageTypes_REGISTER" "t \<noteq> MessageTypes_HEARTBEAT"
    "t \<noteq> MessageTypes_REQUEST_CHARGE" "t \<noteq> MessageTypes_QUERY_AVAILABLE_CPS"
    "t \<noteq> MessageTypes_SUPPLY_UPDATE" "t \<noteq> MessageTypes_SUPPLY_END"
    "t \<noteq> MessageTypes_END_CHARGE" "t \<noteq> ''FINISH_CHARGE''" "t \<noteq> MessageTypes_FAULT"
    "t \<noteq> MessageTypes_RECOVERY" "t \<noteq> ''LOG''" "t \<noteq> ''WEATHER_ALERT''"
  shows "fields_read (t # r) = 1"
  using assms by (simp add: fields_read_def)

lemma short_message_quiet:
  assumes "length flds < fields_read flds"
  shows "only_logged s (fst (process_fields env flds sck cid s)) \<and>
         snd (snd (process_fields env flds sck cid s)) \<noteq> Blocked"
proof (cases flds)
  case Nil
  then show ?thesis by (simp add: process_fields_def only_logged_refl)
next
  case (Cons t r)
  note quiet = short_others short_logging add_log_unlocked only_logged_refl
  have 1: ?thesis if "t = MessageTypes_REGISTER"
    using assms short_register [of flds s env sck]
    unfolding Cons that by (simp only: dispatch fields_read_table) simp
  have 2: ?thesis if "t = MessageTypes_HEARTBEAT"
    using assms unfolding Cons that by (simp add: dispatch fields_read_table quiet)
  have 3: ?thesis if "t = MessageTypes_REQUEST_CHARGE"
    using assms unfolding Cons that by (simp add: dispatch fields_read_table quiet)
  have 4: ?thesis if "t = MessageTypes_QUERY_AVAILABLE_CPS"
    using assms unfolding Cons that by (simp add: dispatch fields_read_table quiet)
  have 5: ?thesis if "t = MessageTypes_SUPPLY_UPDATE"
    using assms unfolding Cons that by (simp add: dispatch fields_read_table quiet)
  have 6: ?thesis if "t = MessageTypes_SUPPLY_END"
    using assms unfolding Cons that by (simp add: dispatch fields_read_table quiet)
  have 7: ?thesis if "t = MessageTypes_END_CHARGE"
    using assms unfolding Cons that by (simp add: dispatch fields_read_table quiet)
  have 8: ?thesis if "t = ''FINISH_CHARGE''"
    using assms unfolding Cons that by (simp add: dispatch fields_read_table quiet)
  have 9: ?thesis if "t = MessageTypes_FAULT"
    using assms unfolding Cons that by (simp add: dispatch fields_read_table quiet)
  have 10: ?thesis if "t = MessageTypes_RECOVERY"
    using assms unfolding Cons that by (simp add: dispatch fields_read_table quiet)
  have 11: ?thesis if "t = ''LOG''"
    using assms unfolding Cons that by (simp add: dispatch fields_read_table quiet)
  have 12: ?thesis if "t = ''WEATHER_ALERT''"
    using assms unfolding Cons that by (simp add: dispatch fields_read_table quiet)
  have 13: ?thesis
    if "t \<noteq> MessageTypes_REGISTER" "t \<noteq> MessageTypes_HEARTBEAT"
      "t \<noteq> MessageTypes_REQUEST_CHARGE" "t \<noteq> MessageTypes_QUERY_AVAILABLE_CPS"
      "t \<noteq> MessageTypes_SUPPLY_UPDATE" "t \<noteq> MessageTypes_SUPPLY_END"
      "t \<noteq> MessageTypes_END_CHARGE" "t \<noteq> ''FINISH_CHARGE''" "t \<noteq> MessageTypes_FAULT"
      "t \<noteq> MessageTypes_RECOVERY" "t \<noteq> ''LOG''" "t \<noteq> ''WEATHER_ALERT''"
    using assms fields_read_other [OF that, of r] unfolding Cons by simp
  from 1 2 3 4 5 6 7 8 9 10 11 12 13 show ?thesis by blast
qed

text \<open>
  C7. A message with fewer fields than the handler selected for it reads changes nothing
  of the central but, at most, its log: no charging-point record, no driver record, none
  of the socket maps, not the monitors nor the open connections. The handler returns or
  raises (FINISH_CHARGE indexes the fields unguarded and raises IndexError; a REGISTER of
  a charging point without its credentials is denied by the registry; LOG falls back on
  defaults), it never blocks, and the loop of \<open>_handle_client\<close> goes on to the next
  message.
\<close>

theorem short_message_rejected:
  assumes "length flds < fields_read flds"
  shows "let r = process_fields env flds sck cid s
         in only_logged s (fst r) \<and>
            charging_points (fst r) = charging_points s \<and>
            drivers (fst r) = drivers s \<and>
            entity_to_socket (fst r) = entity_to_socket s \<and>
            socket_to_entity (fst r) = socket_to_entity s \<and>
            socket_to_type (fst r) = socket_to_type s \<and>
            monitors (fst r) = monitors s \<and>
            active_connections (fst r) = active_connections s \<and>
            snd (snd r) \<noteq> Blocked \<and>
            snd (snd (handle_client_step env flds sck cid s)) = Continue"
proof -
  let ?s' = "fst (process_fields env flds sck cid s)"
  from short_message_quiet [OF assms, of s env sck cid]
  have q: "only_logged s ?s'" and nb: "snd (snd (process_fields env flds sck cid s)) \<noteq> Blocked"
    by simp_all
  from q have eq: "?s' = s\<lparr>logs := logs ?s'\<rparr>"
    by (simp add: only_logged_def)
  have "charging_points ?s' = charging_points s" "drivers ?s' = drivers s"
    "entity_to_socket ?s' = entity_to_socket s" "socket_to_entity ?s' = socket_to_entity s"
    "socket_to_type ?s' = socket_to_type s" "monitors ?s' = monitors s"
    "active_connections ?s' = active_connections s"
    by (subst eq, simp)+
  with q nb show ?thesis
    by (simp add: Let_def step_status)
qed

theorem short_message_rejected_witness:
  "length [''REQUEST_CHARGE'', ''D-1'', ''CP-1''] < fields_read [''REQUEST_CHARGE'', ''D-1'', ''CP-1''] \<and>
   charging_points
     (fst (process_fields sample_env [''REQUEST_CHARGE'', ''D-1'', ''CP-1''] 2 ''10.0.0.2:40002''
             (sample_central idle_cp idle_driver))) = [''CP-1'' \<mapsto> idle_cp] \<and>
   drivers
     (fst (process_fields sample_env [''REQUEST_CHARGE'', ''D-1'', ''CP-1''] 2 ''10.0.0.2:40002''
             (sample_central idle_cp idle_driver))) = [''D-1'' \<mapsto> idle_driver] \<and>
   snd (snd (handle_client_step sample_env [''REQUEST_CHARGE'', ''D-1'', ''CP-1''] 2
               ''10.0.0.2:40002'' (sample_central idle_cp idle_driver))) = Continue \<and>
   length [''FINISH_CHARGE'', ''D-1''] < fields_read [''FINISH_CHARGE'', ''D-1''] \<and>
   process_fields sample_env [''FINISH_CHARGE'', ''D-1''] 2 ''10.0.0.2:40002''
     (sample_central busy_cp charging_driver) =
     (sample_central busy_cp charging_driver, [], Raised IndexError) \<and>
   snd (snd (handle_client_step sample_env [''FINISH_CHARGE'', ''D-1''] 2
               ''10.0.0.2:40002'' (sample_central busy_cp charging_driver))) = Continue \<and>
   length [''REGISTER'', ''CP'', ''CP-1'', ''40'', ''-3'', ''0.5'', ''user1''] <
     fields_read [''REGISTER'', ''CP'', ''CP-1'', ''40'', ''-3'', ''0.5'', ''user1''] \<and>
   socket_to_entity
     (fst (process_fields sample_env
             [''REGISTER'', ''CP'', ''CP-1'', ''40'', ''-3'', ''0.5'', ''user1''] 9
             ''10.0.0.9:40009'' (sample_central busy_cp charging_driver))) =
     [1 \<mapsto> ''CP-1'', 2 \<mapsto> ''D-1'']"
proof -
  have l1: "length [''REQUEST_CHARGE'', ''D-1'', ''CP-1''] <
            fields_read [''REQUEST_CHARGE'', ''D-1'', ''CP-1'']"
    by (simp add: fields_read_def message_types_defs)
  have l2: "length [''FINISH_CHARGE'', ''D-1''] < fields_read [''FINISH_CHARGE'', ''D-1'']"
    by (simp add: fields_read_def message_types_defs)
  have l3: "length [''REGISTER'', ''CP'', ''CP-1'', ''40'', ''-3'', ''0.5'', ''user1''] <
            fields_read [''REGISTER'', ''CP'', ''CP-1'', ''40'', ''-3'', ''0.5'', ''user1'']"
    by (simp add: fields_read_def message_types_defs)
  have f: "process_fields sample_env [''FINISH_CHARGE'', ''D-1''] 2 ''10.0.0.2:40002''
     (sample_central busy_cp charging_driver) =
     (sample_central busy_cp charging_driver, [], Raised IndexError)"
    by (simp add: process_fields_def message_types_defs)
  show ?thesis
    using l1 l2 l3 f
      short_message_rejected [OF l1, of sample_env 2 "''10.0.0.2:40002''"
                                "sample_central idle_cp idle_driver"]
      short_message_rejected [OF l2, of sample_env 2 "''10.0.0.2:40002''"
                                "sample_central busy_cp charging_driver"]
      short_message_rejected [OF l3, of sample_env 9 "''10.0.0.9:40009''"
                                "sample_central busy_cp charging_driver"]
    by (simp add: Let_def sample_central_def)
qed

section \<open>Charge requests\<close>

lemma broadcast_no_deny:
  "t \<noteq> MessageTypes_DENY \<Longrightarrow> \<not> list_ex is_deny (broadcast_to_ui_protocol s (Str t # args))"
  by (simp add: broadcast_to_ui_protocol_def split: option.splits)

lemma cleanup_no_deny: "\<not> list_ex is_deny (snd (cleanup_socket sck cid s))"
proof -
  have ne: "''CP_STATE'' \<noteq> MessageTypes_DENY"
    by (simp add: message_types_defs)
  show ?thesis
    by (simp add: cleanup_socket_def Let_def broadcast_no_deny [OF ne]
          split: option.splits)
qed

lemma cleanup_drivers: "drivers (fst (cleanup_socket sck cid s)) = drivers s"
  by (simp add: cleanup_socket_def Let_def set_cp_def split: option.splits)

lemma cleanup_keeps_supplying_record:
  assumes "charging_points s k = Some r" and "state r = CP_STATES_SUPPLYING"
  shows "charging_points (fst (cleanup_socket sck cid s)) k = Some r"
  using assms
  by (auto simp: cleanup_socket_def Let_def set_cp_def split: option.splits)

lemma send_to_cp_cases:
  "send_to_cp env c msg s0 =
     (case entity_to_socket s0 c of
        None \<Rightarrow> (s0, [], False)
      | Some sck \<Rightarrow>
          if send_ok env sck
          then (s0, [Send sck (encrypt_key_for_cp s0 c) msg], True)
          else (fst (cleanup_socket sck (''cp:'' @ c) s0),
                Send sck (encrypt_key_for_cp s0 c) msg #
                snd (cleanup_socket sck (''cp:'' @ c) s0),
                False))"
  by (simp add: send_to_cp_def split: option.splits prod.splits)

lemma send_to_cp_no_deny:
  "t \<noteq> MessageTypes_DENY \<Longrightarrow>
     \<not> list_ex is_deny (fst (snd (send_to_cp env c (Str t # args) s0)))"
  by (simp add: send_to_cp_cases cleanup_no_deny split: option.splits)

lemma send_to_cp_drivers: "drivers (fst (send_to_cp env c msg s0)) = drivers s0"
  by (simp add: send_to_cp_cases cleanup_drivers split: option.splits)

lemma send_to_cp_keeps_supplying_record:
  "charging_points s0 k = Some r \<Longrightarrow> state r = CP_STATES_SUPPLYING \<Longrightarrow>
     charging_points (fst (send_to_cp env c msg s0)) k = Some r"
  by (simp add: send_to_cp_cases cleanup_keeps_supplying_record split: option.splits)


lemma charge_request_refused:
  assumes "4 \<le> length flds"
    and "fparse (fops env) (flds ! 3) = Some n"
    and "case charging_points s (flds ! 2) of
           None \<Rightarrow> True
         | Some cp \<Rightarrow> state cp \<noteq> CP_STATES_ACTIVATED \<or> current_driver cp \<noteq> None"
  shows "handle_charge_request env flds sck cid s =
           (s,
            [Send sck None
               [Str MessageTypes_DENY, Str (flds ! 1), Str (flds ! 2),
                Str (case charging_points s (flds ! 2) of
                       None \<Rightarrow> ''CP_NOT_FOUND''
                     | Some cp \<Rightarrow>
                         if state cp \<noteq> CP_STATES_ACTIVATED then ''CP_STATE_'' @ state cp
                         else ''CP_ALREADY_IN_USE'')]],
            if send_ok env sck then Returned else Raised SendError)"
  using assms
  by (auto simp: handle_charge_request_def send_raising_def Let_def split: option.splits)

lemma charge_request_accepted:
  assumes "4 \<le> length flds"
    and "fparse (fops env) (flds ! 3) = Some n"
    and "charging_points s (flds ! 2) = Some cp"
    and "state cp = CP_STATES_ACTIVATED"
    and "current_driver cp = None"
  shows "\<not> list_ex is_deny (fst (snd (handle_charge_request env flds sck cid s)))"
    and "Send sck None
           [Str MessageTypes_AUTHORIZE, Str (flds ! 1), Str (flds ! 2), Flt n,
            Flt (price_per_kwh cp)]
         \<in> set (fst (snd (handle_charge_request env flds sck cid s)))"
    and "charging_points (fst (handle_charge_request env flds sck cid s)) (flds ! 2) =
           Some (cp\<lparr>state := CP_STATES_SUPPLYING,
                    current_driver := Some (flds ! 1),
                    session_start := Some (clock env),
                    kwh_delivered := fzero (fops env),
                    amount_euro := fzero (fops env),
                    kwh_needed := n,
                    charging_complete := False\<rparr>)"
    and "snd (snd (handle_charge_request env flds sck cid s)) = Returned"
proof -
  have ne: "''LOG'' \<noteq> MessageTypes_DENY" "''DRIVER_START'' \<noteq> MessageTypes_DENY"
    "MessageTypes_AUTHORIZE \<noteq> MessageTypes_DENY"
    by (simp_all add: message_types_defs)
  show "\<not> list_ex is_deny (fst (snd (handle_charge_request env flds sck cid s)))"
    using assms ne
    by (simp add: handle_charge_request_def add_log_def Let_def case_prod_beta
          broadcast_no_deny send_to_cp_no_deny)
  show "Send sck None
           [Str MessageTypes_AUTHORIZE, Str (flds ! 1), Str (flds ! 2), Flt n,
            Flt (price_per_kwh cp)]
         \<in> set (fst (snd (handle_charge_request env flds sck cid s)))"
    using assms
    by (simp add: handle_charge_request_def add_log_def Let_def case_prod_beta)
  show "charging_points (fst (handle_charge_request env flds sck cid s)) (flds ! 2) =
           Some (cp\<lparr>state := CP_STATES_SUPPLYING,
                    current_driver := Some (flds ! 1),
                    session_start := Some (clock env),
                    kwh_delivered := fzero (fops env),
                    amount_euro := fzero (fops env),
                    kwh_needed := n,
                    charging_complete := False\<rparr>)"
  proof (cases "drivers s (flds ! 1)")
    case None
    with assms show ?thesis
      by (simp add: handle_charge_request_def add_log_def Let_def case_prod_beta set_cp_def
            send_to_cp_keeps_supplying_record)
  next
    case (Some dr)
    with assms show ?thesis
      by (simp add: handle_charge_request_def add_log_def Let_def case_prod_beta set_cp_def
            send_to_cp_keeps_supplying_record)
  qed
  show "snd (snd (handle_charge_request env flds sck cid s)) = Returned"
    using assms
    by (simp add: handle_charge_request_def add_log_def Let_def case_prod_beta)
qed

text \<open>
  C3. A REQUEST_CHARGE message is \<open>REQUEST_CHARGE(driverId, cpId, energyNeeded)\<close>: at
  least four fields, the fourth a number. For such a message the handler sends a DENY
  when the charging point id is unknown, or the state of the charging point is not
  ACTIVATED, or its current driver is not \<open>None\<close>. Conversely, for any list of fields
  whatever, a DENY is sent only in these three cases, and it is then the only effect, sent
  to the requesting socket: it carries the driver id, the charging point id and a reason
  (CP_NOT_FOUND for an unknown id, \<open>CP_STATE_\<close> followed by the state when not
  ACTIVATED, CP_ALREADY_IN_USE otherwise), and the state of the central, so every
  charging-point record and every driver record, is what it was.
\<close>

theorem charge_request_denied_exactly_when:
  "let r = handle_charge_request env flds sck cid s;
       found = charging_points s (flds ! 2);
       refused = (case found of
                    None \<Rightarrow> True
                  | Some cp \<Rightarrow>
                      state cp \<noteq> CP_STATES_ACTIVATED \<or> current_driver cp \<noteq> None);
       reason = (case found of
                   None \<Rightarrow> ''CP_NOT_FOUND''
                 | Some cp \<Rightarrow>
                     if state cp \<noteq> CP_STATES_ACTIVATED then ''CP_STATE_'' @ state cp
                     else ''CP_ALREADY_IN_USE'')
   in (4 \<le> length flds \<and> fparse (fops env) (flds ! 3) \<noteq> None \<and> refused \<longrightarrow>
         list_ex is_deny (fst (snd r))) \<and>
      (list_ex is_deny (fst (snd r)) \<longrightarrow>
         refused \<and>
         fst r = s \<and>
         fst (snd r) =
           [Send sck None
              [Str MessageTypes_DENY, Str (flds ! 1), Str (flds ! 2), Str reason]])"
proof -
  let ?r = "handle_charge_request env flds sck cid s"
  let ?refused = "case charging_points s (flds ! 2) of
                    None \<Rightarrow> True
                  | Some cp \<Rightarrow> state cp \<noteq> CP_STATES_ACTIVATED \<or> current_driver cp \<noteq> None"
  have ne: "''LOG'' \<noteq> MessageTypes_DENY"
    by (simp add: message_types_defs)
  have short: "\<not> list_ex is_deny (fst (snd ?r))" if "length flds < 4"
    using that by (simp add: handle_charge_request_def add_log_def Let_def broadcast_no_deny [OF ne])
  have unread: "\<not> list_ex is_deny (fst (snd ?r))"
    if "4 \<le> length flds" "fparse (fops env) (flds ! 3) = None"
    using that by (simp add: handle_charge_request_def Let_def)
  have taken: "\<not> list_ex is_deny (fst (snd ?r))"
    if "4 \<le> length flds" "fparse (fops env) (flds ! 3) = Some n" "\<not> ?refused" for n
  proof -
    from that(3) obtain cp where cp: "charging_points s (flds ! 2) = Some cp"
      and st: "state cp = CP_STATES_ACTIVATED" and dr: "current_driver cp = None"
      by (cases "charging_points s (flds ! 2)") simp_all
    from charge_request_accepted(1) [OF that(1) that(2) cp st dr] show ?thesis .
  qed
  have turned: "?r =
           (s,
            [Send sck None
               [Str MessageTypes_DENY, Str (flds ! 1), Str (flds ! 2),
                Str (case charging_points s (flds ! 2) of
                       None \<Rightarrow> ''CP_NOT_FOUND''
                     | Some cp \<Rightarrow>
                         if state cp \<noteq> CP_STATES_ACTIVATED then ''CP_STATE_'' @ state cp
                         else ''CP_ALREADY_IN_USE'')]],
            if send_ok env sck then Returned else Raised SendError)"
    if "4 \<le> length flds" "fparse (fops env) (flds ! 3) = Some n" "?refused" for n
    by (rule charge_request_refused [OF that])
  have if_part: "list_ex is_deny (fst (snd ?r))"
    if "4 \<le> length flds" "fparse (fops env) (flds ! 3) \<noteq> None" "?refused"
  proof -
    from that(2) obtain n where "fparse (fops env) (flds ! 3) = Some n"
      by (cases "fparse (fops env) (flds ! 3)") simp_all
    from turned [OF that(1) this that(3)] show ?thesis by simp
  qed
  have only_if: "?refused \<and> fst ?r = s \<and>
              fst (snd ?r) =
                [Send sck None
                   [Str MessageTypes_DENY, Str (flds ! 1), Str (flds ! 2),
                    Str (case charging_points s (flds ! 2) of
                           None \<Rightarrow> ''CP_NOT_FOUND''
                         | Some cp \<Rightarrow>
                             if state cp \<noteq> CP_STATES_ACTIVATED then ''CP_STATE_'' @ state cp
                             else ''CP_ALREADY_IN_USE'')]]"
    if d: "list_ex is_deny (fst (snd ?r))"
  proof -
    from d short have len: "4 \<le> length flds"
      by (cases "length flds < 4") simp_all
    from d unread [OF len] obtain n where p: "fparse (fops env) (flds ! 3) = Some n"
      by (cases "fparse (fops env) (flds ! 3)") simp_all
    from d taken [OF len p] have ref: "?refused"
      by (cases "?refused") simp_all
    from turned [OF len p ref] ref show ?thesis by simp
  qed
  from if_part only_if show ?thesis
    unfolding Let_def by blast
qed

theorem charge_request_denied_exactly_when_witness:
  "4 \<le> length [''REQUEST_CHARGE'', ''D-2'', ''CP-9'', ''10''] \<and>
   fparse (fops sample_env) ([''REQUEST_CHARGE'', ''D-2'', ''CP-9'', ''10''] ! 3) = Some 10 \<and>
   handle_charge_request sample_env [''REQUEST_CHARGE'', ''D-2'', ''CP-9'', ''10''] 3
     ''10.0.0.3:40003'' (sample_central idle_cp idle_driver) =
     (sample_central idle_cp idle_driver,
      [Send 3 None [Str ''DENY'', Str ''D-2'', Str ''CP-9'', Str ''CP_NOT_FOUND'']],
      Returned) \<and>
   4 \<le> length [''REQUEST_CHARGE'', ''D-2'', ''CP-1'', ''10''] \<and>
   fparse (fops sample_env) ([''REQUEST_CHARGE'', ''D-2'', ''CP-1'', ''10''] ! 3) = Some 10 \<and>
   fst (snd (handle_charge_request sample_env [''REQUEST_CHARGE'', ''D-2'', ''CP-1'', ''10''] 3
               ''10.0.0.3:40003'' (sample_central busy_cp charging_driver))) =
     [Send 3 None [Str ''DENY'', Str ''D-2'', Str ''CP-1'', Str ''CP_STATE_SUPPLYING'']] \<and>
   fst (handle_charge_request sample_env [''REQUEST_CHARGE'', ''D-2'', ''CP-1'', ''10''] 3
          ''10.0.0.3:40003'' (sample_central busy_cp charging_driver)) =
     sample_central busy_cp charging_driver \<and>
   \<not> list_ex is_deny
       (fst (snd (handle_charge_request sample_env
                    [''REQUEST_CHARGE'', ''D-2'', ''CP-1'', ''10''] 3 ''10.0.0.3:40003''
                    (sample_central idle_cp idle_driver))))"
proof -
  have ops: "fops sample_env = exact_ops"
    by (simp add: sample_env_def)
  have p: "fparse exact_ops ''10'' = Some 10"
    by (simp add: exact_ops_def parse_decimal_def parse_unsigned_def Let_def)
  have l: "charging_points (sample_central idle_cp idle_driver) ''CP-9'' = None"
    "charging_points (sample_central idle_cp idle_driver) ''CP-1'' = Some idle_cp"
    "charging_points (sample_central busy_cp charging_driver) ''CP-1'' = Some busy_cp"
    by (simp_all add: sample_central_def)
  have r: "state idle_cp = ''ACTIVATED''" "current_driver idle_cp = None"
    "state busy_cp = ''SUPPLYING''"
    by (simp_all add: idle_cp_def busy_cp_def)
  have ok: "send_ok sample_env 3"
    by (simp add: sample_env_def)
  show ?thesis
    using charge_request_denied_exactly_when
            [of sample_env "[''REQUEST_CHARGE'', ''D-2'', ''CP-9'', ''10'']" 3
                "''10.0.0.3:40003''" "sample_central idle_cp idle_driver"]
          charge_request_denied_exactly_when
            [of sample_env "[''REQUEST_CHARGE'', ''D-2'', ''CP-1'', ''10'']" 3
                "''10.0.0.3:40003''" "sample_central busy_cp charging_driver"]
          charge_request_denied_exactly_when
            [of sample_env "[''REQUEST_CHARGE'', ''D-2'', ''CP-1'', ''10'']" 3
                "''10.0.0.3:40003''" "sample_central idle_cp idle_driver"]
          charge_request_refused
            [of "[''REQUEST_CHARGE'', ''D-2'', ''CP-9'', ''10'']" sample_env 10
                "sample_central idle_cp idle_driver" 3 "''10.0.0.3:40003''"]
    by (simp add: Let_def ops p l r ok cp_states_defs message_types_defs)
qed

text \<open>
  C4. Two REQUEST_CHARGE messages (each with its four fields and a numeric energy) for the
  same charging point, handled one after the other from a state where it is ACTIVATED with
  no driver: the first is accepted, with no DENY, an AUTHORIZE to its sender, and the
  record SUPPLYING with the first driver and a fresh session; the second changes nothing,
  its only effect is a DENY to its sender with the reason CP_STATE_SUPPLYING; the record
  still holds the session of the first request.
\<close>

theorem two_requests_one_session:
  assumes "4 \<le> length flds1" and "fparse (fops env1) (flds1 ! 3) = Some n1"
    and "4 \<le> length flds2" and "fparse (fops env2) (flds2 ! 3) = Some n2"
    and "flds1 ! 2 = cp_id" and "flds2 ! 2 = cp_id"
    and "charging_points s cp_id = Some cp"
    and "state cp = CP_STATES_ACTIVATED"
    and "current_driver cp = None"
  shows
    "let r1 = handle_charge_request env1 flds1 sck1 cid1 s;
         r2 = handle_charge_request env2 flds2 sck2 cid2 (fst r1);
         session = cp\<lparr>state := CP_STATES_SUPPLYING,
                      current_driver := Some (flds1 ! 1),
                      session_start := Some (clock env1),
                      kwh_delivered := fzero (fops env1),
                      amount_euro := fzero (fops env1),
                      kwh_needed := n1,
                      charging_complete := False\<rparr>
     in \<not> list_ex is_deny (fst (snd r1)) \<and>
        Send sck1 None
          [Str MessageTypes_AUTHORIZE, Str (flds1 ! 1), Str cp_id, Flt n1,
           Flt (price_per_kwh cp)] \<in> set (fst (snd r1)) \<and>
        charging_points (fst r1) cp_id = Some session \<and>
        fst r2 = fst r1 \<and>
        fst (snd r2) =
          [Send sck2 None
             [Str MessageTypes_DENY, Str (flds2 ! 1), Str cp_id,
              Str (''CP_STATE_'' @ CP_STATES_SUPPLYING)]] \<and>
        charging_points (fst r2) cp_id = Some session"
proof -
  let ?r1 = "handle_charge_request env1 flds1 sck1 cid1 s"
  let ?session = "cp\<lparr>state := CP_STATES_SUPPLYING,
                      current_driver := Some (flds1 ! 1),
                      session_start := Some (clock env1),
                      kwh_delivered := fzero (fops env1),
                      amount_euro := fzero (fops env1),
                      kwh_needed := n1,
                      charging_complete := False\<rparr>"
  have cp1: "charging_points s (flds1 ! 2) = Some cp"
    using assms(5) assms(7) by simp
  note acc = charge_request_accepted [OF assms(1) assms(2) cp1 assms(8) assms(9), of sck1 cid1]
  have a1: "\<not> list_ex is_deny (fst (snd ?r1))"
    by (rule acc(1))
  have a2: "Send sck1 None
          [Str MessageTypes_AUTHORIZE, Str (flds1 ! 1), Str cp_id, Flt n1,
           Flt (price_per_kwh cp)] \<in> set (fst (snd ?r1))"
    using acc(2) assms(5) by simp
  have a3: "charging_points (fst ?r1) cp_id = Some ?session"
    using acc(3) assms(5) by simp
  have ne: "CP_STATES_SUPPLYING \<noteq> CP_STATES_ACTIVATED"
    by (simp add: cp_states_defs)
  have ref: "case charging_points (fst ?r1) (flds2 ! 2) of
               None \<Rightarrow> True
             | Some c \<Rightarrow> state c \<noteq> CP_STATES_ACTIVATED \<or> current_driver c \<noteq> None"
    using a3 assms(6) ne by simp
  from charge_request_refused [OF assms(3) assms(4) ref, of sck2 cid2]
  have r2: "handle_charge_request env2 flds2 sck2 cid2 (fst ?r1) =
              (fst ?r1,
               [Send sck2 None
                  [Str MessageTypes_DENY, Str (flds2 ! 1), Str cp_id,
                   Str (''CP_STATE_'' @ CP_STATES_SUPPLYING)]],
               if send_ok env2 sck2 then Returned else Raised SendError)"
    using a3 assms(6) ne by simp
  show ?thesis
    unfolding Let_def
    using a1 a2 a3 by (simp add: r2)
qed


theorem two_requests_one_session_witness:
  "4 \<le> length [''REQUEST_CHARGE'', ''D-1'', ''CP-1'', ''10''] \<and>
   fparse (fops sample_env) ([''REQUEST_CHARGE'', ''D-1'', ''CP-1'', ''10''] ! 3) = Some 10 \<and>
   4 \<le> length [''REQUEST_CHARGE'', ''D-2'', ''CP-1'', ''5''] \<and>
   fparse (fops sample_env) ([''REQUEST_CHARGE'', ''D-2'', ''CP-1'', ''5''] ! 3) = Some 5 \<and>
   [''REQUEST_CHARGE'', ''D-1'', ''CP-1'', ''10''] ! 2 = ''CP-1'' \<and>
   [''REQUEST_CHARGE'', ''D-2'', ''CP-1'', ''5''] ! 2 = ''CP-1'' \<and>
   charging_points (sample_central idle_cp idle_driver) ''CP-1'' = Some idle_cp \<and>
   state idle_cp = CP_STATES_ACTIVATED \<and>
   current_driver idle_cp = None \<and>
   charging_points
     (fst (handle_charge_request sample_env [''REQUEST_CHARGE'', ''D-1'', ''CP-1'', ''10''] 2
             ''10.0.0.2:40002'' (sample_central idle_cp idle_driver))) ''CP-1'' =
     Some (idle_cp\<lparr>state := ''SUPPLYING'', current_driver := Some ''D-1'',
                    session_start := Some 1000, kwh_needed := 10\<rparr>) \<and>
   Send 2 None [Str ''AUTHORIZE'', Str ''D-1'', Str ''CP-1'', Flt 10, Flt (1 / 2)]
     \<in> set (fst (snd (handle_charge_request sample_env
                         [''REQUEST_CHARGE'', ''D-1'', ''CP-1'', ''10''] 2 ''10.0.0.2:40002''
                         (sample_central idle_cp idle_driver)))) \<and>
   fst (snd (handle_charge_request sample_env [''REQUEST_CHARGE'', ''D-2'', ''CP-1'', ''5''] 3
               ''10.0.0.3:40003''
               (fst (handle_charge_request sample_env
                       [''REQUEST_CHARGE'', ''D-1'', ''CP-1'', ''10''] 2 ''10.0.0.2:40002''
                       (sample_central idle_cp idle_driver))))) =
     [Send 3 None [Str ''DENY'', Str ''D-2'', Str ''CP-1'', Str ''CP_STATE_SUPPLYING'']]"
proof -
  have ops: "fops sample_env = exact_ops" "clock sample_env = 1000"
    by (simp_all add: sample_env_def)
  have p: "fparse exact_ops ''10'' = Some 10" "fparse exact_ops ''5'' = Some 5"
    by (simp_all add: exact_ops_def parse_decimal_def parse_unsigned_def Let_def)
  have z: "fzero exact_ops = 0"
    by (simp add: exact_ops_def)
  have l: "charging_points (sample_central idle_cp idle_driver) ''CP-1'' = Some idle_cp"
    by (simp add: sample_central_def)
  have r: "state idle_cp = ''ACTIVATED''" "current_driver idle_cp = None"
    "price_per_kwh idle_cp = 1 / 2"
    "idle_cp\<lparr>state := ''SUPPLYING'', current_driver := Some ''D-1'',
             session_start := Some 1000, kwh_delivered := 0, amount_euro := 0,
             kwh_needed := 10, charging_complete := False\<rparr> =
     idle_cp\<lparr>state := ''SUPPLYING'', current_driver := Some ''D-1'',
             session_start := Some 1000, kwh_needed := 10\<rparr>"
    by (simp_all add: idle_cp_def)
  show ?thesis
    using two_requests_one_session
            [of "[''REQUEST_CHARGE'', ''D-1'', ''CP-1'', ''10'']" sample_env 10
                "[''REQUEST_CHARGE'', ''D-2'', ''CP-1'', ''5'']" sample_env 5 "''CP-1''"
                "sample_central idle_cp idle_driver" idle_cp 2 "''10.0.0.2:40002''"
                3 "''10.0.0.3:40003''"]
    by (simp add: Let_def ops p z l r cp_states_defs message_types_defs)
qed

section \<open>Metering over a session\<close>

lemma exact_ordered: "ordered_floats exact_ops"
  by (simp add: ordered_floats_def exact_ops_def)

text \<open>
  C8, amended. Every accepted SUPPLY_UPDATE sets the accumulated energy of its charging
  point to the previous value plus the reported increment, by addition and with no check
  of the sign. Within one session, opened by an accepted REQUEST_CHARGE, the accumulated
  energy starts at \<open>0.0\<close> and is non-decreasing over every sequence of accepted updates
  that follows the opening and whose increments are all \<open>>= 0.0\<close>: each value of the
  trace is \<open>>=\<close> every earlier one. The same holds over such a sequence from any
  accumulated energy that is \<open>>= 0.0\<close>.
\<close>

theorem energy_grows_with_nonnegative_increments:
  assumes "charging_points s cp_id = Some cp"
  shows
    "(\<forall>m e. accepted_update (fops env) cp_id m \<and> fparse (fops env) (m ! 2) = Some e \<longrightarrow>
        energy_of (fst (handle_supply_update env m s)) cp_id =
          [fadd (fops env) (float_or_zero (fops env) (kwh_delivered cp)) e]) \<and>
     (ordered_floats (fops env) \<and>
      4 \<le> length req \<and> req ! 2 = cp_id \<and> fparse (fops env) (req ! 3) \<noteq> None \<and>
      state cp = CP_STATES_ACTIVATED \<and> current_driver cp = None \<and>
      (\<forall>m \<in> set msgs. accepted_increment (fops env) cp_id m) \<longrightarrow>
        (let opened = fst (handle_charge_request env req sck cid s)
         in energy_of opened cp_id = [fzero (fops env)] \<and>
            length (energy_trace env cp_id msgs opened) = length msgs + 1 \<and>
            sorted_wrt (\<lambda>u v. fge (fops env) v u) (energy_trace env cp_id msgs opened))) \<and>
     (ordered_floats (fops env) \<and>
      fge (fops env) (kwh_delivered cp) (fzero (fops env)) \<and>
      (\<forall>m \<in> set msgs. accepted_increment (fops env) cp_id m) \<longrightarrow>
        length (energy_trace env cp_id msgs s) = length msgs + 1 \<and>
        sorted_wrt (\<lambda>u v. fge (fops env) v u) (energy_trace env cp_id msgs s))"
proof -
  have one: "energy_of (fst (handle_supply_update env m s)) cp_id =
               [fadd (fops env) (float_or_zero (fops env) (kwh_delivered cp)) e]"
    if au: "accepted_update (fops env) cp_id m" and pe: "fparse (fops env) (m ! 2) = Some e"
    for m e
  proof -
    from au have len: "4 \<le> length m" and id: "m ! 1 = cp_id"
      and pa': "fparse (fops env) (m ! 3) \<noteq> None"
      by (simp_all add: accepted_update_def)
    from pa' obtain a where pa: "fparse (fops env) (m ! 3) = Some a"
      by (cases "fparse (fops env) (m ! 3)") simp_all
    from assms id have cp': "charging_points s (m ! 1) = Some cp" by simp
    show ?thesis
      using supply_update_record [OF len pe pa cp'] id by (simp add: energy_of_def)
  qed
  have many: "length (energy_trace env cp_id msgs t) = length msgs + 1 \<and>
              sorted_wrt (\<lambda>u v. fge (fops env) v u) (energy_trace env cp_id msgs t)"
    if laws: "ordered_floats (fops env)"
      and known: "charging_points t cp_id = Some c"
      and pos: "fge (fops env) (kwh_delivered c) (fzero (fops env))"
      and a: "\<forall>m \<in> set msgs. accepted_increment (fops env) cp_id m"
    for t c
  proof -
    from energy_trace_sorted [OF laws a known pos]
    obtain rest where "energy_trace env cp_id msgs t = kwh_delivered c # rest"
      and "length rest = length msgs"
      and "sorted_wrt (\<lambda>u v. fge (fops env) v u) (energy_trace env cp_id msgs t)"
      by blast
    then show ?thesis by simp
  qed
  have session:
    "energy_of (fst (handle_charge_request env req sck cid s)) cp_id = [fzero (fops env)] \<and>
     length (energy_trace env cp_id msgs (fst (handle_charge_request env req sck cid s))) =
       length msgs + 1 \<and>
     sorted_wrt (\<lambda>u v. fge (fops env) v u)
       (energy_trace env cp_id msgs (fst (handle_charge_request env req sck cid s)))"
    if laws: "ordered_floats (fops env)"
      and len: "4 \<le> length req" and id: "req ! 2 = cp_id"
      and p: "fparse (fops env) (req ! 3) \<noteq> None"
      and st: "state cp = CP_STATES_ACTIVATED" and dr: "current_driver cp = None"
      and a: "\<forall>m \<in> set msgs. accepted_increment (fops env) cp_id m"
  proof -
    from p obtain n where pn: "fparse (fops env) (req ! 3) = Some n"
      by (cases "fparse (fops env) (req ! 3)") simp_all
    from assms id have cp': "charging_points s (req ! 2) = Some cp" by simp
    let ?c = "cp\<lparr>state := CP_STATES_SUPPLYING,
                  current_driver := Some (req ! 1),
                  session_start := Some (clock env),
                  kwh_delivered := fzero (fops env),
                  amount_euro := fzero (fops env),
                  kwh_needed := n,
                  charging_complete := False\<rparr>"
    from charge_request_accepted(3) [OF len pn cp' st dr, of sck cid] id
    have known: "charging_points (fst (handle_charge_request env req sck cid s)) cp_id = Some ?c"
      by simp
    from laws have "fge (fops env) (fzero (fops env)) (fzero (fops env))"
      by (simp add: ordered_floats_def)
    then have pos: "fge (fops env) (kwh_delivered ?c) (fzero (fops env))"
      by simp
    from many [OF laws known pos a] known show ?thesis
      by (simp add: energy_of_def)
  qed
  have general: "length (energy_trace env cp_id msgs s) = length msgs + 1 \<and>
                 sorted_wrt (\<lambda>u v. fge (fops env) v u) (energy_trace env cp_id msgs s)"
    if "ordered_floats (fops env)" "fge (fops env) (kwh_delivered cp) (fzero (fops env))"
      "\<forall>m \<in> set msgs. accepted_increment (fops env) cp_id m"
    by (rule many [OF that(1) assms that(2) that(3)])
  from one session general show ?thesis
    unfolding Let_def by blast
qed

lemma sample_trace:
  "energy_trace sample_env ''CP-1''
     [[''SUPPLY_UPDATE'', ''CP-1'', ''1'', ''0.5''], [''SUPPLY_UPDATE'', ''CP-1'', ''5'', ''5'']]
     (sample_central busy_cp charging_driver) = [5, 6, 11]"
  by (simp add: energy_of_def handle_supply_update_def Let_def set_cp_def sample_defs
        exact_ops_def parse_decimal_def parse_unsigned_def float_or_zero_def
        broadcast_to_ui_protocol_def)

lemma sample_session_trace:
  "energy_trace sample_env ''CP-1''
     [[''SUPPLY_UPDATE'', ''CP-1'', ''1'', ''0.5''], [''SUPPLY_UPDATE'', ''CP-1'', ''5'', ''5'']]
     (fst (handle_charge_request sample_env [''REQUEST_CHARGE'', ''D-1'', ''CP-1'', ''10''] 2
             ''10.0.0.2:40002'' (sample_central idle_cp idle_driver))) = [0, 1, 6]"
  by (simp add: energy_of_def handle_supply_update_def handle_charge_request_def add_log_def
        send_to_cp_def encrypt_key_for_cp_def Let_def set_cp_def sample_defs
        exact_ops_def parse_decimal_def parse_unsigned_def float_or_zero_def
        broadcast_to_ui_protocol_def cp_states_defs)


theorem energy_grows_with_nonnegative_increments_witness:
  "charging_points (sample_central idle_cp idle_driver) ''CP-1'' = Some idle_cp \<and>
   ordered_floats (fops sample_env) \<and>
   4 \<le> length [''REQUEST_CHARGE'', ''D-1'', ''CP-1'', ''10''] \<and>
   [''REQUEST_CHARGE'', ''D-1'', ''CP-1'', ''10''] ! 2 = ''CP-1'' \<and>
   fparse (fops sample_env) ([''REQUEST_CHARGE'', ''D-1'', ''CP-1'', ''10''] ! 3) \<noteq> None \<and>
   state idle_cp = CP_STATES_ACTIVATED \<and>
   current_driver idle_cp = None \<and>
   accepted_increment (fops sample_env) ''CP-1'' [''SUPPLY_UPDATE'', ''CP-1'', ''1'', ''0.5''] \<and>
   accepted_increment (fops sample_env) ''CP-1'' [''SUPPLY_UPDATE'', ''CP-1'', ''5'', ''5''] \<and>
   energy_trace sample_env ''CP-1''
     [[''SUPPLY_UPDATE'', ''CP-1'', ''1'', ''0.5''], [''SUPPLY_UPDATE'', ''CP-1'', ''5'', ''5'']]
     (fst (handle_charge_request sample_env [''REQUEST_CHARGE'', ''D-1'', ''CP-1'', ''10''] 2
             ''10.0.0.2:40002'' (sample_central idle_cp idle_driver))) = [0, 1, 6] \<and>
   sorted_wrt (\<lambda>u v. fge (fops sample_env) v u)
     (energy_trace sample_env ''CP-1''
        [[''SUPPLY_UPDATE'', ''CP-1'', ''1'', ''0.5''], [''SUPPLY_UPDATE'', ''CP-1'', ''5'', ''5'']]
        (fst (handle_charge_request sample_env [''REQUEST_CHARGE'', ''D-1'', ''CP-1'', ''10''] 2
                ''10.0.0.2:40002'' (sample_central idle_cp idle_driver)))) \<and>
   charging_points (sample_central busy_cp charging_driver) ''CP-1'' = Some busy_cp \<and>
   fge (fops sample_env) (kwh_delivered busy_cp) (fzero (fops sample_env)) \<and>
   energy_trace sample_env ''CP-1''
     [[''SUPPLY_UPDATE'', ''CP-1'', ''1'', ''0.5''], [''SUPPLY_UPDATE'', ''CP-1'', ''5'', ''5'']]
     (sample_central busy_cp charging_driver) = [5, 6, 11] \<and>
   sorted_wrt (\<lambda>u v. fge (fops sample_env) v u)
     (energy_trace sample_env ''CP-1''
        [[''SUPPLY_UPDATE'', ''CP-1'', ''1'', ''0.5''], [''SUPPLY_UPDATE'', ''CP-1'', ''5'', ''5'']]
        (sample_central busy_cp charging_driver)) \<and>
   accepted_update (fops sample_env) ''CP-1'' [''SUPPLY_UPDATE'', ''CP-1'', ''-3'', ''0''] \<and>
   fparse (fops sample_env) ([''SUPPLY_UPDATE'', ''CP-1'', ''-3'', ''0''] ! 2) = Some (- 3) \<and>
   energy_of
     (fst (handle_supply_update sample_env [''SUPPLY_UPDATE'', ''CP-1'', ''-3'', ''0'']
             (sample_central busy_cp charging_driver))) ''CP-1'' = [2]"
proof -
  let ?msgs = "[[''SUPPLY_UPDATE'', ''CP-1'', ''1'', ''0.5''],
                [''SUPPLY_UPDATE'', ''CP-1'', ''5'', ''5'']]"
  let ?req = "[''REQUEST_CHARGE'', ''D-1'', ''CP-1'', ''10'']"
  have ops: "fops sample_env = exact_ops"
    by (simp add: sample_env_def)
  have h1: "ordered_floats (fops sample_env)"
    by (simp add: ops exact_ordered)
  have i1: "charging_points (sample_central idle_cp idle_driver) ''CP-1'' = Some idle_cp"
    by (simp add: sample_central_def)
  have i2: "4 \<le> length ?req" "?req ! 2 = ''CP-1''"
    by simp_all
  have i3: "fparse (fops sample_env) (?req ! 3) \<noteq> None"
    by (simp add: ops exact_ops_def parse_decimal_def parse_unsigned_def Let_def)
  have i4: "state idle_cp = CP_STATES_ACTIVATED" "current_driver idle_cp = None"
    by (simp_all add: idle_cp_def cp_states_defs)
  have b1: "charging_points (sample_central busy_cp charging_driver) ''CP-1'' = Some busy_cp"
    by (simp add: sample_central_def)
  have b2: "fge (fops sample_env) (kwh_delivered busy_cp) (fzero (fops sample_env))"
    by (simp add: ops exact_ops_def busy_cp_def)
  have a0: "accepted_update (fops sample_env) ''CP-1'' [''SUPPLY_UPDATE'', ''CP-1'', ''-3'', ''0'']"
    by (simp add: ops accepted_update_def exact_parse_samples)
  have p0: "fparse (fops sample_env) ([''SUPPLY_UPDATE'', ''CP-1'', ''-3'', ''0''] ! 2) = Some (- 3)"
    by (simp add: ops exact_parse_samples)
  have a1: "accepted_increment (fops sample_env) ''CP-1'' [''SUPPLY_UPDATE'', ''CP-1'', ''1'', ''0.5'']"
    by (simp add: ops accepted_increment_def accepted_update_def exact_parse_samples)
       (simp add: exact_ops_def)
  have a2: "accepted_increment (fops sample_env) ''CP-1'' [''SUPPLY_UPDATE'', ''CP-1'', ''5'', ''5'']"
    by (simp add: ops accepted_increment_def accepted_update_def exact_parse_samples)
       (simp add: exact_ops_def)
  have all: "\<forall>m \<in> set ?msgs. accepted_increment (fops sample_env) ''CP-1'' m"
    using a1 a2 by simp
  note idle = energy_grows_with_nonnegative_increments
                [OF i1, of sample_env ?req ?msgs 2 "''10.0.0.2:40002''"]
  note busy = energy_grows_with_nonnegative_increments
                [OF b1, of sample_env ?req ?msgs 2 "''10.0.0.2:40002''"]
  from idle h1 i2 i3 i4 all
  have s1: "sorted_wrt (\<lambda>u v. fge (fops sample_env) v u)
     (energy_trace sample_env ''CP-1'' ?msgs
        (fst (handle_charge_request sample_env ?req 2 ''10.0.0.2:40002''
                (sample_central idle_cp idle_driver))))"
    unfolding Let_def by blast
  from busy h1 b2 all
  have s2: "sorted_wrt (\<lambda>u v. fge (fops sample_env) v u)
     (energy_trace sample_env ''CP-1'' ?msgs (sample_central busy_cp charging_driver))"
    by blast
  from busy a0 p0
  have e0: "energy_of
     (fst (handle_supply_update sample_env [''SUPPLY_UPDATE'', ''CP-1'', ''-3'', ''0'']
             (sample_central busy_cp charging_driver))) ''CP-1'' =
     [fadd (fops sample_env) (float_or_zero (fops sample_env) (kwh_delivered busy_cp)) (- 3)]"
    by blast
  have e0': "fadd (fops sample_env) (float_or_zero (fops sample_env) (kwh_delivered busy_cp)) (- 3) = 2"
    by (simp add: ops exact_ops_def float_or_zero_def busy_cp_def)
  from e0 e0' have e: "energy_of
     (fst (handle_supply_update sample_env [''SUPPLY_UPDATE'', ''CP-1'', ''-3'', ''0'']
             (sample_central busy_cp charging_driver))) ''CP-1'' = [2]"
    by simp
  from i1 h1 i2 i3 i4 a1 a2 sample_session_trace s1 b1 b2 sample_trace s2 a0 p0 e
  show ?thesis
    by blast
qed

end
